theory Spec2Isabelle
  imports Main
begin

section \<open>Data model: the relational store as the queries of the source see it\<close>

text \<open>
  The JavaScript source talks to a PostgreSQL store through SQL text. Every table is a list
  of rows (a \<^theory_text>\<open>record\<close> per table, one field per column that a query of the
  source names); a \<open>SELECT\<close> is a \<open>filter\<close> over that list and \<open>rows[0]\<close> is the
  head of the filtered list. Identifiers are JavaScript numbers holding integers, modelled
  as \<open>int\<close>; a nullable column is an \<open>option\<close>; \<open>CURRENT_TIMESTAMP\<close> is an explicit
  parameter \<open>now\<close>; a \<open>SERIAL\<close> column draws from a counter kept in the store.
  The migration scripts and the queries disagree on several column names; the model follows
  the queries, and takes no constraint from the scripts: where a property needs the primary
  key of a table, it is a stated hypothesis.
\<close>

record user_row =
  u_id :: int
  username :: string
  display_name :: string

record friendship_row =
  f_id :: int
  requester_id :: int
  addressee_id :: int
  status :: string

record photo_row =
  p_id :: int
  p_user_id :: int
  file_path :: string
  filename :: string
  permission_type :: string
  custom_group_id :: "int option"
  p_is_deleted :: bool

record access_permission_row =
  ap_id :: int
  ap_user_id :: int
  group_name :: string
  ap_description :: "string option"
  allowed_user_ids :: "int list option"

record album_row =
  a_id :: int
  a_user_id :: int
  a_name :: string
  privacy_type :: string

record album_photo_row =
  ap_album_id :: int
  ap_photo_id :: int

record photo_share_row =
  ps_id :: int
  ps_shared_by :: int
  ps_shared_with :: int
  ps_photo_id :: "int option"
  ps_album_id :: "int option"
  ps_permission_level :: string
  ps_expires_at :: "int option"
  ps_is_active :: bool
  ps_created_at :: int

record album_share_row =
  als_id :: int
  als_shared_by :: int
  als_shared_with :: int
  als_album_id :: int
  als_permission_level :: string
  als_expires_at :: "int option"
  als_is_active :: bool
  als_created_at :: int

record permission_group_row =
  pg_id :: int
  pg_owner_id :: int
  pg_name :: string
  pg_description :: "string option"
  pg_is_active :: bool

record permission_group_member_row =
  pgm_group_id :: int
  pgm_user_id :: int
  pgm_added_at :: int

record db =
  users :: "user_row list"
  friendships :: "friendship_row list"
  friendships_seq :: int
  photos :: "photo_row list"
  access_permissions :: "access_permission_row list"
  albums :: "album_row list"
  album_photos :: "album_photo_row list"
  photo_shares :: "photo_share_row list"
  album_shares :: "album_share_row list"
  permission_groups :: "permission_group_row list"
  permission_groups_seq :: int
  permission_group_members :: "permission_group_member_row list"

section \<open>PermissionUtils (utils/permission.utils)\<close>

text \<open>The object \<open>{ hasPermission, reason }\<close> returned by the permission checks.\<close>

record permission_result =
  hasPermission :: bool
  reason :: string

text \<open>
  \<open>PermissionUtils.areFriends\<close>: a row of \<open>friendships\<close> in either direction with status
  \<open>accepted\<close>; the result is \<open>result.rows.length > 0\<close>.
\<close>

definition areFriends :: "db \<Rightarrow> int \<Rightarrow> int \<Rightarrow> bool" where
  "areFriends d userId1 userId2 =
     (0 < length (filter (\<lambda>f.
        ((requester_id f = userId1 \<and> addressee_id f = userId2) \<or>
         (requester_id f = userId2 \<and> addressee_id f = userId1))
        \<and> status f = ''accepted'') (friendships d)))"

text \<open>
  \<open>PermissionUtils.checkPhotoPermission(currentUserId, photoOwnerId, permissionType,
  customGroupId = null)\<close>. The \<open>switch\<close> is the chain of string comparisons below, in
  the order of the source; \<open>!customGroupId\<close> holds for \<open>null\<close> and for the number 0;
  \<open>allowed_user_ids || []\<close> reads a \<open>NULL\<close> array as the empty list.
\<close>

definition checkPhotoPermission ::
  "db \<Rightarrow> int \<Rightarrow> int \<Rightarrow> string \<Rightarrow> int option \<Rightarrow> permission_result" where
  "checkPhotoPermission d currentUserId photoOwnerId permissionType customGroupId =
     (if currentUserId = photoOwnerId then
        \<lparr>hasPermission = True, reason = ''Owner access''\<rparr>
      else if permissionType = ''public'' then
        \<lparr>hasPermission = True, reason = ''Public access''\<rparr>
      else if permissionType = ''friends'' \<or> permissionType = ''close_friends'' then
        (let isFriend = areFriends d currentUserId photoOwnerId in
         \<lparr>hasPermission = isFriend,
          reason = (if isFriend then ''Friend access'' else ''Not friends'')\<rparr>)
      else if permissionType = ''custom'' then
        (case customGroupId of
           None \<Rightarrow> \<lparr>hasPermission = False, reason = ''Custom group ID required''\<rparr>
         | Some g \<Rightarrow>
             if g = 0 then \<lparr>hasPermission = False, reason = ''Custom group ID required''\<rparr>
             else
               (case filter (\<lambda>r. ap_id r = g \<and> ap_user_id r = photoOwnerId)
                       (access_permissions d) of
                  [] \<Rightarrow> \<lparr>hasPermission = False, reason = ''Custom group not found''\<rparr>
                | r # _ \<Rightarrow>
                    (let allowedUserIds =
                           (case allowed_user_ids r of None \<Rightarrow> [] | Some ids \<Rightarrow> ids);
                         hasAccess = (currentUserId \<in> set allowedUserIds) in
                     \<lparr>hasPermission = hasAccess,
                      reason = (if hasAccess then ''Custom group access''
                                else ''Not in custom group'')\<rparr>)))
      else \<lparr>hasPermission = False, reason = ''Invalid permission type''\<rparr>)"


text \<open>
  \<open>PermissionUtils.checkAlbumPermission(currentUserId, albumId)\<close>. The first query joins
  \<open>albums\<close> with \<open>users\<close>. The share query reads \<open>photo_shares\<close> and names the
  sharer and recipient columns \<open>sharer_id\<close> and \<open>recipient_id\<close>; the model reads them
  as the sharer and recipient columns of that table. The result object carries the album
  row as a third property.
\<close>

record album_permission_result = permission_result +
  album :: "album_row option"

definition share_effective_condition :: "int \<Rightarrow> bool \<Rightarrow> int option \<Rightarrow> bool" where
  \<comment> \<open>\<open>is_active = TRUE AND (expires_at IS NULL OR expires_at > CURRENT_TIMESTAMP)\<close>\<close>
  "share_effective_condition now is_active expires_at =
     (is_active \<and> (case expires_at of None \<Rightarrow> True | Some t \<Rightarrow> now < t))"

definition checkAlbumPermission :: "db \<Rightarrow> int \<Rightarrow> int \<Rightarrow> int \<Rightarrow> album_permission_result" where
  "checkAlbumPermission d now currentUserId albumId =
     (case [a. a \<leftarrow> albums d, u \<leftarrow> users d, a_user_id a = u_id u, a_id a = albumId] of
        [] \<Rightarrow> \<lparr>hasPermission = False, reason = ''Album not found'', album = None\<rparr>
      | a # _ \<Rightarrow>
          if a_user_id a = currentUserId then
            \<lparr>hasPermission = True, reason = ''Owner access'', album = Some a\<rparr>
          else if 0 < length (filter (\<lambda>s.
                      ps_shared_by s = a_user_id a \<and> ps_shared_with s = currentUserId
                      \<and> ps_album_id s = Some albumId
                      \<and> share_effective_condition now (ps_is_active s) (ps_expires_at s))
                    (photo_shares d)) then
            \<lparr>hasPermission = True, reason = ''Shared access'', album = Some a\<rparr>
          else if privacy_type a = ''private'' then
            \<lparr>hasPermission = False, reason = ''Private album'', album = Some a\<rparr>
          else if privacy_type a = ''friends'' then
            (let isFriend = areFriends d currentUserId (a_user_id a) in
             \<lparr>hasPermission = isFriend,
              reason = (if isFriend then ''Friend access'' else ''Not friends''),
              album = Some a\<rparr>)
          else if privacy_type a = ''public'' then
            \<lparr>hasPermission = True, reason = ''Public access'', album = Some a\<rparr>
          else \<lparr>hasPermission = False, reason = ''Access denied'', album = Some a\<rparr>)"

section \<open>PhotoModel and PhotoService\<close>

text \<open>\<open>result.rows[0]\<close>: the first row of a result, \<open>undefined\<close> or \<open>null\<close> when there is none.\<close>

definition first_row :: "'a list \<Rightarrow> 'a option" where
  "first_row rows = (case rows of [] \<Rightarrow> None | r # _ \<Rightarrow> Some r)"

text \<open>
  \<open>PhotoModel.findById\<close>: the photo joined with its owner's user row, not deleted. The
  joined user columns are presentation data and are left out of the row.
\<close>

definition PhotoModel_findById :: "db \<Rightarrow> int \<Rightarrow> photo_row option" where
  "PhotoModel_findById d photoId =
     first_row [p. p \<leftarrow> photos d, u \<leftarrow> users d, p_user_id p = u_id u,
                   p_id p = photoId \<and> p_is_deleted p = False]"

text \<open>\<open>PhotoModel.getCustomGroup\<close>: the \<open>access_permissions\<close> row of that id, or \<open>null\<close>.\<close>

definition PhotoModel_getCustomGroup :: "db \<Rightarrow> int \<Rightarrow> access_permission_row option" where
  "PhotoModel_getCustomGroup d groupId =
     first_row (filter (\<lambda>r. ap_id r = groupId) (access_permissions d))"

text \<open>\<open>FileUtils.generateLocalFileUrl\<close>: the relative path with a leading slash.\<close>

definition generateLocalFileUrl :: "string \<Rightarrow> string" where
  "generateLocalFileUrl relativePath =
     (if take 1 relativePath = ''/'' then relativePath else ''/'' @ relativePath)"

text \<open>
  \<open>PhotoService.getPhotoById(photoId, currentUserId)\<close>. A thrown \<open>Error\<close> is \<open>Inl\<close> of
  its message. The returned object holds the photo row that \<open>formatPhoto\<close> renders, the
  custom group (id, name and description) when \<open>custom_group_id\<close> is truthy and the row
  exists, and the file URL.
\<close>

record photo_response =
  photo :: photo_row
  customGroup :: "(int \<times> string \<times> string option) option"
  fileUrl :: string

definition getPhotoById :: "db \<Rightarrow> int \<Rightarrow> int \<Rightarrow> string + photo_response" where
  "getPhotoById d photoId currentUserId =
     (case PhotoModel_findById d photoId of
        None \<Rightarrow> Inl ''Photo not found''
      | Some ph \<Rightarrow>
          (let permission = checkPhotoPermission d currentUserId (p_user_id ph)
                              (permission_type ph) (custom_group_id ph) in
           if \<not> hasPermission permission then
             Inl (''Access denied: '' @ reason permission)
           else
             Inr \<lparr>photo = ph,
                  customGroup =
                    (case custom_group_id ph of
                       None \<Rightarrow> None
                     | Some g \<Rightarrow>
                         if g = 0 then None
                         else (case PhotoModel_getCustomGroup d g of
                                 None \<Rightarrow> None
                               | Some grp \<Rightarrow>
                                   Some (ap_id grp, group_name grp, ap_description grp))),
                  fileUrl = generateLocalFileUrl (file_path ph)\<rparr>))"

section \<open>SharingModel and SharingService\<close>

text \<open>
  The sharing code hands the rows of its queries on as JavaScript objects and reads them
  by property name, so here a row is an object: a list of properties in the order of the
  \<open>SELECT\<close> list, each column under the name the query gives it. Reading a property that
  the object does not have yields \<open>undefined\<close>.
\<close>

datatype jsval =
    JUndefined
  | JNull
  | JBool bool
  | JNum int
  | JStr string
  | JObj "(string \<times> jsval) list"

type_synonym js_object = "(string \<times> jsval) list"

definition js_get :: "js_object \<Rightarrow> string \<Rightarrow> jsval" where
  "js_get obj name = (case map_of obj name of None \<Rightarrow> JUndefined | Some v \<Rightarrow> v)"

definition js_nullable :: "int option \<Rightarrow> jsval" where
  "js_nullable v = (case v of None \<Rightarrow> JNull | Some n \<Rightarrow> JNum n)"

text \<open>The ten columns every query selects from \<open>photo_shares\<close> and from \<open>album_shares\<close>.\<close>

definition photo_share_columns :: "photo_share_row \<Rightarrow> js_object" where
  "photo_share_columns s =
     [(''id'', JNum (ps_id s)),
      (''shared_by'', JNum (ps_shared_by s)),
      (''shared_with'', JNum (ps_shared_with s)),
      (''share_type'', JStr ''individual_photo''),
      (''album_id'', JNull),
      (''photo_id'', js_nullable (ps_photo_id s)),
      (''permission_level'', JStr (ps_permission_level s)),
      (''expires_at'', js_nullable (ps_expires_at s)),
      (''is_active'', JBool (ps_is_active s)),
      (''created_at'', JNum (ps_created_at s))]"

definition album_share_columns :: "album_share_row \<Rightarrow> js_object" where
  "album_share_columns s =
     [(''id'', JNum (als_id s)),
      (''shared_by'', JNum (als_shared_by s)),
      (''shared_with'', JNum (als_shared_with s)),
      (''share_type'', JStr ''album''),
      (''album_id'', JNum (als_album_id s)),
      (''photo_id'', JNull),
      (''permission_level'', JStr (als_permission_level s)),
      (''expires_at'', js_nullable (als_expires_at s)),
      (''is_active'', JBool (als_is_active s)),
      (''created_at'', JNum (als_created_at s))]"

text \<open>
  \<open>LEFT JOIN photos p ON ps.photo_id = p.id\<close> and \<open>LEFT JOIN albums a ON als.album_id =
  a.id\<close>: one value of the joined column per matching row, and a single \<open>NULL\<close> when no
  row matches.
\<close>

definition left_join_file_name :: "db \<Rightarrow> photo_share_row \<Rightarrow> jsval list" where
  "left_join_file_name d s =
     (case filter (\<lambda>p. ps_photo_id s = Some (p_id p)) (photos d) of
        [] \<Rightarrow> [JNull]
      | ps \<Rightarrow> map (\<lambda>p. JStr (filename p)) ps)"

definition left_join_album_name :: "db \<Rightarrow> album_share_row \<Rightarrow> jsval list" where
  "left_join_album_name d s =
     (case filter (\<lambda>a. als_album_id s = a_id a) (albums d) of
        [] \<Rightarrow> [JNull]
      | as \<Rightarrow> map (\<lambda>a. JStr (a_name a)) as)"

text \<open>
  \<open>SharingModel.getShareById(shareId)\<close>: the share of that id in \<open>photo_shares\<close>, joined
  with the sharer's and the recipient's user rows; when there is none, the share of that id
  in \<open>album_shares\<close>; \<open>null\<close> otherwise.
\<close>

definition photoShareQuery :: "db \<Rightarrow> int \<Rightarrow> js_object list" where
  "photoShareQuery d shareId =
     [photo_share_columns ps @
        [(''shared_by_username'', JStr (username sharer)),
         (''shared_by_display_name'', JStr (display_name sharer)),
         (''shared_with_username'', JStr (username recipient)),
         (''shared_with_display_name'', JStr (display_name recipient)),
         (''album_name'', JNull),
         (''file_name'', file_name)].
      ps \<leftarrow> photo_shares d,
      sharer \<leftarrow> users d, ps_shared_by ps = u_id sharer,
      recipient \<leftarrow> users d, ps_shared_with ps = u_id recipient,
      file_name \<leftarrow> left_join_file_name d ps,
      ps_id ps = shareId]"

definition albumShareQuery :: "db \<Rightarrow> int \<Rightarrow> js_object list" where
  "albumShareQuery d shareId =
     [album_share_columns als @
        [(''shared_by_username'', JStr (username sharer)),
         (''shared_by_display_name'', JStr (display_name sharer)),
         (''shared_with_username'', JStr (username recipient)),
         (''shared_with_display_name'', JStr (display_name recipient)),
         (''album_name'', album_name),
         (''file_name'', JNull)].
      als \<leftarrow> album_shares d,
      sharer \<leftarrow> users d, als_shared_by als = u_id sharer,
      recipient \<leftarrow> users d, als_shared_with als = u_id recipient,
      album_name \<leftarrow> left_join_album_name d als,
      als_id als = shareId]"

definition getShareById :: "db \<Rightarrow> int \<Rightarrow> js_object option" where
  "getShareById d shareId =
     (case first_row (photoShareQuery d shareId) of
        Some row \<Rightarrow> Some row
      | None \<Rightarrow> first_row (albumShareQuery d shareId))"

text \<open>
  The argument \<open>updateData\<close> of \<open>SharingModel.updateShare\<close>: an object with the keys
  that \<open>mapShareFieldToDb\<close> knows; a key that is absent or \<open>undefined\<close> is \<open>None\<close>.
  \<open>revokeShare\<close> and \<open>reactivateShare\<close> pass \<open>{ isActive: false }\<close> and
  \<open>{ isActive: true }\<close>.
\<close>

record share_update =
  isActive :: "bool option"
  permissionLevel :: "string option"
  expiresAt :: "int option option"

definition set_photo_share :: "share_update \<Rightarrow> photo_share_row \<Rightarrow> photo_share_row" where
  "set_photo_share upd s =
     s\<lparr>ps_is_active := (case isActive upd of None \<Rightarrow> ps_is_active s | Some b \<Rightarrow> b),
       ps_permission_level :=
         (case permissionLevel upd of None \<Rightarrow> ps_permission_level s | Some l \<Rightarrow> l),
       ps_expires_at := (case expiresAt upd of None \<Rightarrow> ps_expires_at s | Some e \<Rightarrow> e)\<rparr>"

definition set_album_share :: "share_update \<Rightarrow> album_share_row \<Rightarrow> album_share_row" where
  "set_album_share upd s =
     s\<lparr>als_is_active := (case isActive upd of None \<Rightarrow> als_is_active s | Some b \<Rightarrow> b),
       als_permission_level :=
         (case permissionLevel upd of None \<Rightarrow> als_permission_level s | Some l \<Rightarrow> l),
       als_expires_at := (case expiresAt upd of None \<Rightarrow> als_expires_at s | Some e \<Rightarrow> e)\<rparr>"

text \<open>
  \<open>SharingModel.updateShare(shareId, updateData)\<close>: throws when no field is given;
  otherwise \<open>UPDATE photo_shares ... WHERE id = shareId RETURNING ...\<close>, and only when that
  returns no row, the same update on \<open>album_shares\<close>. The result is the thrown message or
  the returned row (\<open>undefined\<close> when neither table has the id), with the store after the
  call.
\<close>

definition SharingModel_updateShare ::
  "db \<Rightarrow> int \<Rightarrow> share_update \<Rightarrow> (string + js_object option) \<times> db" where
  "SharingModel_updateShare d shareId updateData =
     (if isActive updateData = None \<and> permissionLevel updateData = None
         \<and> expiresAt updateData = None then
        (Inl ''No fields to update'', d)
      else
        (let d1 = d\<lparr>photo_shares :=
                      map (\<lambda>s. if ps_id s = shareId then set_photo_share updateData s else s)
                          (photo_shares d)\<rparr> in
         case first_row (map photo_share_columns
                          (filter (\<lambda>s. ps_id s = shareId) (photo_shares d1))) of
           Some row \<Rightarrow> (Inr (Some row), d1)
         | None \<Rightarrow>
             (let d2 = d1\<lparr>album_shares :=
                            map (\<lambda>s. if als_id s = shareId
                                      then set_album_share updateData s else s)
                                (album_shares d1)\<rparr> in
              (Inr (first_row (map album_share_columns
                                 (filter (\<lambda>s. als_id s = shareId) (album_shares d2)))),
               d2))))"

text \<open>\<open>SharingModel.formatShare(share, type)\<close>.\<close>

definition formatShare :: "js_object \<Rightarrow> string \<Rightarrow> js_object" where
  "formatShare share type =
     (let isGiven = (type = ''given'') in
      [(''id'', js_get share ''id''),
       (''sharerId'', js_get share ''shared_by''),
       (''recipientId'', js_get share ''shared_with''),
       (''shareType'', js_get share ''share_type''),
       (''albumId'', js_get share ''album_id''),
       (''photoId'', js_get share ''photo_id''),
       (''permissionLevel'', js_get share ''permission_level''),
       (''expiresAt'', js_get share ''expires_at''),
       (''isActive'', js_get share ''is_active''),
       (''createdAt'', js_get share ''created_at''),
       (''updatedAt'', js_get share ''updated_at''),
       (if isGiven then ''recipient'' else ''sharer'',
        JObj [(''username'', if isGiven then js_get share ''shared_with_username''
                             else js_get share ''shared_by_username''),
              (''displayName'', if isGiven then js_get share ''shared_with_display_name''
                                else js_get share ''shared_by_display_name'')]),
       (''content'',
        JObj [(''albumName'', js_get share ''album_name''),
              (''fileName'', js_get share ''file_name'')])])"

text \<open>
  \<open>SharingService.updateShare(shareId, userId, updateData)\<close>, and the two callers
  \<open>revokeShare\<close> and \<open>reactivateShare\<close>. The ownership test is
  \<open>share.sharer_id !== userId\<close> on the row that \<open>getShareById\<close> returned.
  \<open>formatShare\<close> on \<open>undefined\<close> throws a \<open>TypeError\<close>.
\<close>

definition SharingService_updateShare ::
  "db \<Rightarrow> int \<Rightarrow> int \<Rightarrow> share_update \<Rightarrow> (string + js_object) \<times> db" where
  "SharingService_updateShare d shareId userId updateData =
     (case getShareById d shareId of
        None \<Rightarrow> (Inl ''Share not found'', d)
      | Some share \<Rightarrow>
          if js_get share ''sharer_id'' \<noteq> JNum userId then
            (Inl ''Only the sharer can modify this share'', d)
          else
            (case SharingModel_updateShare d shareId updateData of
               (Inl msg, d') \<Rightarrow> (Inl msg, d')
             | (Inr None, d') \<Rightarrow>
                 (Inl ''TypeError: Cannot read properties of undefined'', d')
             | (Inr (Some updatedShare), d') \<Rightarrow>
                 (Inr (formatShare updatedShare ''given''), d')))"

definition revokeShare :: "db \<Rightarrow> int \<Rightarrow> int \<Rightarrow> (string + js_object) \<times> db" where
  "revokeShare d shareId userId =
     SharingService_updateShare d shareId userId
       \<lparr>isActive = Some False, permissionLevel = None, expiresAt = None\<rparr>"

definition reactivateShare :: "db \<Rightarrow> int \<Rightarrow> int \<Rightarrow> (string + js_object) \<times> db" where
  "reactivateShare d shareId userId =
     SharingService_updateShare d shareId userId
       \<lparr>isActive = Some True, permissionLevel = None, expiresAt = None\<rparr>"

text \<open>
  \<open>SharingModel.getSharesByUser(userId, type, { page, limit, status, shareType })\<close>. The
  status condition is spliced into the \<open>WHERE\<close> clause after \<open>shared_by = $1 AND\<close> (or
  \<open>shared_with = $1 AND\<close>) without parentheses, so for \<open>expired\<close> the \<open>OR\<close> of the
  condition binds weaker than that \<open>AND\<close>. A comparison with a \<open>NULL\<close>
  \<open>expires_at\<close> is not true. The rows of both tables are ordered by \<open>created_at\<close>
  descending and cut by \<open>LIMIT\<close> and \<open>OFFSET\<close>, which the store rejects when negative.
\<close>

record share_query_options =
  page :: int
  limit :: int
  status_filter :: string
  shareType :: "string option"

definition status_where :: "string \<Rightarrow> int \<Rightarrow> bool \<Rightarrow> bool \<Rightarrow> int option \<Rightarrow> bool" where
  "status_where status_opt now user_matches is_active expires_at =
     (if status_opt = ''active'' then
        user_matches \<and> share_effective_condition now is_active expires_at
      else if status_opt = ''expired'' then
        (user_matches \<and> is_active = False)
        \<or> (case expires_at of None \<Rightarrow> False | Some t \<Rightarrow> t \<le> now)
      else user_matches)"

definition photoSharesQuery ::
  "db \<Rightarrow> int \<Rightarrow> int \<Rightarrow> string \<Rightarrow> string \<Rightarrow> (int \<times> js_object) list" where
  "photoSharesQuery d now userId type status_opt =
     (if type = ''given'' then
        [(ps_created_at ps,
          photo_share_columns ps @
            [(''shared_with_username'', JStr (username u)),
             (''shared_with_display_name'', JStr (display_name u)),
             (''album_name'', JNull),
             (''file_name'', file_name)]).
         ps \<leftarrow> photo_shares d,
         u \<leftarrow> users d, ps_shared_with ps = u_id u,
         file_name \<leftarrow> left_join_file_name d ps,
         status_where status_opt now (ps_shared_by ps = userId)
           (ps_is_active ps) (ps_expires_at ps)]
      else
        [(ps_created_at ps,
          photo_share_columns ps @
            [(''shared_by_username'', JStr (username u)),
             (''shared_by_display_name'', JStr (display_name u)),
             (''album_name'', JNull),
             (''file_name'', file_name)]).
         ps \<leftarrow> photo_shares d,
         u \<leftarrow> users d, ps_shared_by ps = u_id u,
         file_name \<leftarrow> left_join_file_name d ps,
         status_where status_opt now (ps_shared_with ps = userId)
           (ps_is_active ps) (ps_expires_at ps)])"

definition albumSharesQuery ::
  "db \<Rightarrow> int \<Rightarrow> int \<Rightarrow> string \<Rightarrow> string \<Rightarrow> (int \<times> js_object) list" where
  "albumSharesQuery d now userId type status_opt =
     (if type = ''given'' then
        [(als_created_at als,
          album_share_columns als @
            [(''shared_with_username'', JStr (username u)),
             (''shared_with_display_name'', JStr (display_name u)),
             (''album_name'', album_name),
             (''file_name'', JNull)]).
         als \<leftarrow> album_shares d,
         u \<leftarrow> users d, als_shared_with als = u_id u,
         album_name \<leftarrow> left_join_album_name d als,
         status_where status_opt now (als_shared_by als = userId)
           (als_is_active als) (als_expires_at als)]
      else
        [(als_created_at als,
          album_share_columns als @
            [(''shared_by_username'', JStr (username u)),
             (''shared_by_display_name'', JStr (display_name u)),
             (''album_name'', album_name),
             (''file_name'', JNull)]).
         als \<leftarrow> album_shares d,
         u \<leftarrow> users d, als_shared_by als = u_id u,
         album_name \<leftarrow> left_join_album_name d als,
         status_where status_opt now (als_shared_with als = userId)
           (als_is_active als) (als_expires_at als)])"

definition getSharesByUser ::
  "db \<Rightarrow> int \<Rightarrow> int \<Rightarrow> string \<Rightarrow> share_query_options \<Rightarrow> string + js_object list" where
  "getSharesByUser d now userId type opts =
     (let offset = (page opts - 1) * limit opts;
          unionQuery =
            (if shareType opts = Some ''individual_photo'' then
               photoSharesQuery d now userId type (status_filter opts)
             else if shareType opts = Some ''album'' then
               albumSharesQuery d now userId type (status_filter opts)
             else photoSharesQuery d now userId type (status_filter opts)
                  @ albumSharesQuery d now userId type (status_filter opts)) in
      if limit opts < 0 then Inl ''LIMIT must not be negative''
      else if offset < 0 then Inl ''OFFSET must not be negative''
      else Inr (take (nat (limit opts))
                  (drop (nat offset)
                     (map snd (sort_key (\<lambda>row. - fst row) unionQuery)))))"

section \<open>PermissionModel and PermissionService\<close>

text \<open>
  The service imports \<open>createSuccessResponse\<close> and \<open>createErrorResponse\<close> by
  destructuring from \<open>utils/response.utils\<close>. That module exports the class
  \<open>ResponseUtils\<close>, whose members are \<open>success\<close>, \<open>error\<close>,
  \<open>validationError\<close>, \<open>notFound\<close>, \<open>unauthorized\<close>, \<open>forbidden\<close>,
  \<open>serverError\<close>, \<open>paginated\<close>, \<open>created\<close> and \<open>noContent\<close>; so both imported
  names are \<open>undefined\<close>, and a call of either throws a \<open>TypeError\<close>, whatever the
  arguments. The outcome of a service function is the thrown message (\<open>Inl\<close>) or the
  returned response (\<open>Inr\<close>).
\<close>

definition createSuccessResponse :: "string \<Rightarrow> 'a \<Rightarrow> string + jsval" where
  "createSuccessResponse message data =
     Inl ''TypeError: createSuccessResponse is not a function''"

definition createErrorResponse :: "string \<Rightarrow> nat option \<Rightarrow> string + jsval" where
  "createErrorResponse message statusCode =
     Inl ''TypeError: createErrorResponse is not a function''"

text \<open>\<open>String(n)\<close> and \<open>Array.prototype.join\<close>, for the ids listed in a message.\<close>

definition digit_char :: "nat \<Rightarrow> char" where
  "digit_char n = ''0123456789'' ! n"

fun string_of_nat :: "nat \<Rightarrow> string" where
  "string_of_nat n =
     (if n < 10 then [digit_char n] else string_of_nat (n div 10) @ [digit_char (n mod 10)])"

definition js_String :: "int \<Rightarrow> string" where
  "js_String i = (if i < 0 then ''-'' @ string_of_nat (nat (- i)) else string_of_nat (nat i))"

fun js_join :: "string \<Rightarrow> string list \<Rightarrow> string" where
  "js_join sep [] = []"
| "js_join sep [x] = x"
| "js_join sep (x # y # ys) = x @ sep @ js_join sep (y # ys)"

text \<open>
  \<open>PermissionModel.validateFriendships(currentUserId, userIds)\<close>. \<open>id = ANY($1)\<close> is
  membership in the given list; the \<open>CASE\<close> picks the other end of each accepted edge
  that has the current user at one end and a listed id at the other.
\<close>

record friendship_validation =
  valid :: bool
  validIds :: "int list"
  invalidIds :: "int list"
  nonExistentIds :: "int list"
  nonFriendIds :: "int list"

definition validateFriendships :: "db \<Rightarrow> int \<Rightarrow> int list \<Rightarrow> friendship_validation" where
  "validateFriendships d currentUserId ids =
     (if length ids = 0 then
        \<lparr>valid = True, validIds = [], invalidIds = [], nonExistentIds = [], nonFriendIds = []\<rparr>
      else
        (let existingUserIds = [u_id u. u \<leftarrow> users d, u_id u \<in> set ids];
             friendIds =
               [if requester_id f = currentUserId then addressee_id f else requester_id f.
                f \<leftarrow> friendships d,
                ((requester_id f = currentUserId \<and> addressee_id f \<in> set ids) \<or>
                 (addressee_id f = currentUserId \<and> requester_id f \<in> set ids))
                \<and> status f = ''accepted''];
             nonExistent = filter (\<lambda>i. i \<notin> set existingUserIds) ids;
             nonFriend = filter (\<lambda>i. i \<notin> set friendIds) existingUserIds in
         \<lparr>valid = (length nonExistent = 0 \<and> length nonFriend = 0),
          validIds = friendIds,
          invalidIds = nonExistent @ nonFriend,
          nonExistentIds = nonExistent,
          nonFriendIds = nonFriend\<rparr>))"

text \<open>The request body of group creation: \<open>{ name, description, userIds }\<close>.\<close>

record group_data =
  gd_name :: string
  gd_description :: "string option"
  userIds :: "int list option"

text \<open>
  \<open>PermissionModel.createPermissionGroup\<close>: one transaction that inserts the group row
  (active, with the next id of the sequence) and one member row per given user id.
\<close>

definition PermissionModel_createPermissionGroup ::
  "db \<Rightarrow> int \<Rightarrow> int \<Rightarrow> group_data \<Rightarrow> permission_group_row \<times> db" where
  "PermissionModel_createPermissionGroup d now userId groupData =
     (let grp = \<lparr>pg_id = permission_groups_seq d, pg_owner_id = userId,
                 pg_name = gd_name groupData, pg_description = gd_description groupData,
                 pg_is_active = True\<rparr>;
          members = (case userIds groupData of
                       None \<Rightarrow> []
                     | Some ids \<Rightarrow>
                         map (\<lambda>i. \<lparr>pgm_group_id = pg_id grp, pgm_user_id = i,
                                    pgm_added_at = now\<rparr>) ids) in
      (grp, d\<lparr>permission_groups := permission_groups d @ [grp],
              permission_groups_seq := permission_groups_seq d + 1,
              permission_group_members := permission_group_members d @ members\<rparr>))"

text \<open>
  \<open>PermissionService.createPermissionGroup(userId, groupData)\<close>. The body of the
  \<open>try\<close> is \<open>attempt\<close>; when it throws, the \<open>catch\<close> branch runs on the store as
  the body left it (the model commits its transaction before it returns) and calls
  \<open>createErrorResponse\<close> in turn.
\<close>

definition createPermissionGroup ::
  "db \<Rightarrow> int \<Rightarrow> int \<Rightarrow> group_data \<Rightarrow> (string + jsval) \<times> db" where
  "createPermissionGroup d now userId groupData =
     (let create = (\<lambda>data.
            case PermissionModel_createPermissionGroup d now userId data of
              (grp, d') \<Rightarrow>
                (createSuccessResponse ''Permission group created successfully'' grp, d'));
          attempt =
            (case userIds groupData of
               None \<Rightarrow> create groupData
             | Some ids \<Rightarrow>
                 if 0 < length ids then
                   (let validation = validateFriendships d userId ids in
                    if \<not> valid validation then
                      (createErrorResponse
                         (''Invalid users: ''
                            @ js_join '', '' (map js_String (invalidIds validation))
                            @ ''. Users must exist and be friends.'')
                         (Some 400), d)
                    else create (groupData\<lparr>userIds := Some (validIds validation)\<rparr>))
                 else create groupData) in
      case fst attempt of
        Inl error \<Rightarrow>
          (createErrorResponse ''Failed to create permission group'' None, snd attempt)
      | Inr response \<Rightarrow> attempt)"

text \<open>
  \<open>PermissionModel.getPermissionGroupById(groupId, ownerId)\<close>: the active group of that
  id and owner with its members (joined with \<open>users\<close>, newest first), or \<open>null\<close>.
\<close>

definition PermissionModel_getPermissionGroupById ::
  "db \<Rightarrow> int \<Rightarrow> int \<Rightarrow> (permission_group_row \<times> (user_row \<times> int) list) option" where
  "PermissionModel_getPermissionGroupById d groupId ownerId =
     (let groupResult = filter (\<lambda>g. pg_id g = groupId \<and> pg_owner_id g = ownerId
                                     \<and> pg_is_active g = True) (permission_groups d);
          membersResult = sort_key (\<lambda>row. - snd row)
                            [(u, pgm_added_at m).
                             m \<leftarrow> permission_group_members d,
                             u \<leftarrow> users d, pgm_user_id m = u_id u,
                             pgm_group_id m = groupId] in
      case groupResult of
        [] \<Rightarrow> None
      | g # _ \<Rightarrow> Some (g, membersResult))"

text \<open>\<open>PermissionService.getPermissionGroupById(groupId, userId)\<close>, with its \<open>catch\<close>.\<close>

definition getPermissionGroupById :: "db \<Rightarrow> int \<Rightarrow> int \<Rightarrow> string + jsval" where
  "getPermissionGroupById d groupId userId =
     (let attempt =
            (case PermissionModel_getPermissionGroupById d groupId userId of
               None \<Rightarrow> createErrorResponse ''Permission group not found'' (Some 404)
             | Some grp \<Rightarrow>
                 createSuccessResponse ''Permission group retrieved successfully'' grp) in
      case attempt of
        Inl error \<Rightarrow> createErrorResponse ''Failed to retrieve permission group'' None
      | Inr response \<Rightarrow> attempt)"

text \<open>
  \<open>PermissionModel.deletePermissionGroup(groupId, ownerId)\<close>: the soft delete. It clears
  \<open>is_active\<close> on the active group of that id and owner and returns the updated row, or
  \<open>null\<close> when there is none. \<open>PermissionService.deletePermissionGroup\<close> wraps it.
\<close>

definition PermissionModel_deletePermissionGroup ::
  "db \<Rightarrow> int \<Rightarrow> int \<Rightarrow> permission_group_row option \<times> db" where
  "PermissionModel_deletePermissionGroup d groupId ownerId =
     (let hit = (\<lambda>g. pg_id g = groupId \<and> pg_owner_id g = ownerId \<and> pg_is_active g = True) in
      (first_row (map (\<lambda>g. g\<lparr>pg_is_active := False\<rparr>) (filter hit (permission_groups d))),
       d\<lparr>permission_groups :=
            map (\<lambda>g. if hit g then g\<lparr>pg_is_active := False\<rparr> else g) (permission_groups d)\<rparr>))"

definition deletePermissionGroup :: "db \<Rightarrow> int \<Rightarrow> int \<Rightarrow> (string + jsval) \<times> db" where
  "deletePermissionGroup d groupId userId =
     (let attempt =
            (case PermissionModel_deletePermissionGroup d groupId userId of
               (None, d') \<Rightarrow>
                 (createErrorResponse ''Permission group not found'' (Some 404), d')
             | (Some deletedGroup, d') \<Rightarrow>
                 (createSuccessResponse ''Permission group deleted successfully'' deletedGroup,
                  d')) in
      case fst attempt of
        Inl error \<Rightarrow>
          (createErrorResponse ''Failed to delete permission group'' None, snd attempt)
      | Inr response \<Rightarrow> attempt)"

section \<open>UserModel, FriendModel and FriendService\<close>

definition UserModel_findById :: "db \<Rightarrow> int \<Rightarrow> user_row option" where
  "UserModel_findById d i = first_row (filter (\<lambda>u. u_id u = i) (users d))"

definition checkFriendshipExists :: "db \<Rightarrow> int \<Rightarrow> int \<Rightarrow> friendship_row option" where
  "checkFriendshipExists d userId1 userId2 =
     first_row (filter (\<lambda>f. (requester_id f = userId1 \<and> addressee_id f = userId2)
                            \<or> (requester_id f = userId2 \<and> addressee_id f = userId1))
                  (friendships d))"

definition findPendingRequestBetweenUsers ::
  "db \<Rightarrow> int \<Rightarrow> int \<Rightarrow> (friendship_row \<times> user_row) option" where
  "findPendingRequestBetweenUsers d requesterId addresseeId =
     first_row [(f, u). f \<leftarrow> friendships d, u \<leftarrow> users d, requester_id f = u_id u,
                requester_id f = requesterId \<and> addressee_id f = addresseeId
                \<and> status f = ''pending'']"

text \<open>\<open>FriendModel.areFriends\<close>: \<open>friendship && friendship.status === 'accepted'\<close>.\<close>

definition FriendModel_areFriends :: "db \<Rightarrow> int \<Rightarrow> int \<Rightarrow> bool" where
  "FriendModel_areFriends d userId1 userId2 =
     (case checkFriendshipExists d userId1 userId2 of
        None \<Rightarrow> False
      | Some friendship \<Rightarrow> status friendship = ''accepted'')"

text \<open>\<open>FriendModel.sendFriendRequest\<close>: the \<open>INSERT\<close> of a pending edge.\<close>

definition FriendModel_sendFriendRequest :: "db \<Rightarrow> int \<Rightarrow> int \<Rightarrow> friendship_row \<times> db" where
  "FriendModel_sendFriendRequest d requesterId addresseeId =
     (let row = \<lparr>f_id = friendships_seq d, requester_id = requesterId,
                 addressee_id = addresseeId, status = ''pending''\<rparr> in
      (row, d\<lparr>friendships := friendships d @ [row],
              friendships_seq := friendships_seq d + 1\<rparr>))"

definition getFriendRequestById ::
  "db \<Rightarrow> int \<Rightarrow> int \<Rightarrow> (friendship_row \<times> user_row) option" where
  "getFriendRequestById d requestId addresseeId =
     first_row [(f, u). f \<leftarrow> friendships d, u \<leftarrow> users d, requester_id f = u_id u,
                f_id f = requestId \<and> addressee_id f = addresseeId]"

definition updateFriendshipStatus ::
  "db \<Rightarrow> int \<Rightarrow> string \<Rightarrow> friendship_row option \<times> db" where
  "updateFriendshipStatus d requestId new_status =
     (first_row (map (\<lambda>f. f\<lparr>status := new_status\<rparr>)
                   (filter (\<lambda>f. f_id f = requestId) (friendships d))),
      d\<lparr>friendships := map (\<lambda>f. if f_id f = requestId then f\<lparr>status := new_status\<rparr> else f)
                           (friendships d)\<rparr>)"

text \<open>
  \<open>FriendModel.getFriendshipByUsers(userId, friendId)\<close>: an accepted edge that has
  \<open>userId\<close> at one end and \<open>friendId\<close> at one end, joined with the user at the end
  that the \<open>CASE\<close> selects.
\<close>

definition getFriendshipByUsers ::
  "db \<Rightarrow> int \<Rightarrow> int \<Rightarrow> (friendship_row \<times> user_row) option" where
  "getFriendshipByUsers d userId friendId =
     first_row [(f, u). f \<leftarrow> friendships d, u \<leftarrow> users d,
                (if requester_id f = userId then addressee_id f else requester_id f) = u_id u,
                (requester_id f = userId \<or> addressee_id f = userId)
                \<and> (requester_id f = friendId \<or> addressee_id f = friendId)
                \<and> status f = ''accepted'']"

definition deleteFriendship :: "db \<Rightarrow> int \<Rightarrow> db" where
  "deleteFriendship d friendshipId =
     d\<lparr>friendships := filter (\<lambda>f. f_id f \<noteq> friendshipId) (friendships d)\<rparr>"

text \<open>
  The service functions return the thrown message or the result, with the store after the
  call. \<open>FriendService.sendFriendRequest(requesterId, targetUserId)\<close>:
\<close>

definition sendFriendRequest ::
  "db \<Rightarrow> int \<Rightarrow> int \<Rightarrow> (string + friendship_row \<times> user_row) \<times> db" where
  "sendFriendRequest d requesterId targetUserId =
     (if requesterId = targetUserId then
        (Inl ''Cannot send friend request to yourself'', d)
      else
        (case UserModel_findById d targetUserId of
           None \<Rightarrow> (Inl ''User not found'', d)
         | Some targetUser \<Rightarrow>
             (case checkFriendshipExists d requesterId targetUserId of
                Some existingFriendship \<Rightarrow>
                  (Inl (if status existingFriendship = ''pending'' then
                          ''Friend request already sent or received''
                        else if status existingFriendship = ''accepted'' then
                          ''You are already friends''
                        else if status existingFriendship = ''declined'' then
                          ''Friend request was previously declined''
                        else ''Friendship relationship already exists''), d)
              | None \<Rightarrow>
                  (case FriendModel_sendFriendRequest d requesterId targetUserId of
                     (friendRequest, d') \<Rightarrow> (Inr (friendRequest, targetUser), d')))))"

text \<open>\<open>FriendService.respondToFriendRequest(userId, requestId, action)\<close>.\<close>

definition respondToFriendRequest ::
  "db \<Rightarrow> int \<Rightarrow> int \<Rightarrow> string \<Rightarrow> (string + friendship_row \<times> user_row \<times> string) \<times> db" where
  "respondToFriendRequest d userId requestId action =
     (if action \<notin> set [''accept'', ''decline''] then
        (Inl ''Action must be either \"accept\" or \"decline\"'', d)
      else
        (case getFriendRequestById d requestId userId of
           None \<Rightarrow> (Inl ''Friend request not found or you are not authorized to respond'', d)
         | Some (friendRequest, requester) \<Rightarrow>
             if status friendRequest \<noteq> ''pending'' then
               (Inl ''Friend request has already been responded to'', d)
             else
               (let newStatus = (if action = ''accept'' then ''accepted'' else ''declined'') in
                case updateFriendshipStatus d requestId newStatus of
                  (None, d') \<Rightarrow> (Inl ''TypeError: Cannot read properties of undefined'', d')
                | (Some updatedFriendship, d') \<Rightarrow>
                    (Inr (updatedFriendship, requester, action), d'))))"

text \<open>\<open>FriendService.respondToFriendRequestByUserId(userId, friendId, action)\<close>.\<close>

definition respondToFriendRequestByUserId ::
  "db \<Rightarrow> int \<Rightarrow> int \<Rightarrow> string \<Rightarrow> (string + friendship_row \<times> user_row \<times> string) \<times> db" where
  "respondToFriendRequestByUserId d userId friendId action =
     (if action \<notin> set [''accept'', ''decline''] then
        (Inl ''Action must be either \"accept\" or \"decline\"'', d)
      else
        (case findPendingRequestBetweenUsers d friendId userId of
           None \<Rightarrow> (Inl ''Friend request not found'', d)
         | Some (friendRequest, requester) \<Rightarrow>
             (let newStatus = (if action = ''accept'' then ''accepted'' else ''declined'') in
              case updateFriendshipStatus d (f_id friendRequest) newStatus of
                (None, d') \<Rightarrow> (Inl ''TypeError: Cannot read properties of undefined'', d')
              | (Some updatedFriendship, d') \<Rightarrow>
                  (Inr (updatedFriendship, requester, action), d'))))"

text \<open>
  \<open>FriendService.removeFriend(userId, friendId)\<close>. The argument is what \<open>parseInt\<close>
  makes of \<open>friendId\<close>: \<open>None\<close> stands for \<open>NaN\<close>.
\<close>

definition removeFriend ::
  "db \<Rightarrow> int \<Rightarrow> int option \<Rightarrow> (string + int \<times> user_row) \<times> db" where
  "removeFriend d userId friendId =
     (case friendId of
        None \<Rightarrow> (Inl ''Invalid friend ID'', d)
      | Some parsedFriendId \<Rightarrow>
          (case getFriendshipByUsers d userId parsedFriendId of
             None \<Rightarrow> (Inl ''Friendship not found'', d)
           | Some (friendship, friend) \<Rightarrow>
               (Inr (parsedFriendId, friend), deleteFriendship d (f_id friendship))))"

text \<open>
  A call of one of the four friendship operations, and the store after a sequence of such
  calls (a call that throws leaves the store as the function returns it).
\<close>

datatype friend_call =
    SendFriendRequest int int
  | RespondToFriendRequest int int string
  | RespondToFriendRequestByUserId int int string
  | RemoveFriend int "int option"

fun friend_step :: "db \<Rightarrow> friend_call \<Rightarrow> db" where
  "friend_step d (SendFriendRequest requesterId targetUserId) =
     snd (sendFriendRequest d requesterId targetUserId)"
| "friend_step d (RespondToFriendRequest userId requestId action) =
     snd (respondToFriendRequest d userId requestId action)"
| "friend_step d (RespondToFriendRequestByUserId userId friendId action) =
     snd (respondToFriendRequestByUserId d userId friendId action)"
| "friend_step d (RemoveFriend userId friendId) =
     snd (removeFriend d userId friendId)"

definition friend_run :: "db \<Rightarrow> friend_call list \<Rightarrow> db" where
  "friend_run d calls = foldl friend_step d calls"

section \<open>Expired shares\<close>

text \<open>
  A share is expired at time \<open>now\<close> when its \<open>expires_at\<close> is set and strictly in the
  past. \<open>without_expired\<close> is the store with the expired rows of both share tables
  removed; it serves to state that those rows have no influence on a query.
\<close>

definition expired_at :: "int \<Rightarrow> int option \<Rightarrow> bool" where
  "expired_at now expires_at = (case expires_at of None \<Rightarrow> False | Some t \<Rightarrow> t < now)"

definition without_expired :: "int \<Rightarrow> db \<Rightarrow> db" where
  "without_expired now d =
     d\<lparr>photo_shares := filter (\<lambda>s. \<not> expired_at now (ps_expires_at s)) (photo_shares d),
       album_shares := filter (\<lambda>s. \<not> expired_at now (als_expires_at s)) (album_shares d)\<rparr>"

text \<open>The update that \<open>reactivateShare\<close> passes on: \<open>{ isActive: true }\<close>.\<close>

definition reactivation :: share_update where
  "reactivation = \<lparr>isActive = Some True, permissionLevel = None, expiresAt = None\<rparr>"

section \<open>Declined friendship edges\<close>

text \<open>
  \<open>edge_between a b f\<close>: the edge \<open>f\<close> joins the users \<open>a\<close> and \<open>b\<close>, in either
  direction. \<open>declined_pair d a b\<close>: the store holds an edge between the two and every
  edge between them has the status \<open>declined\<close>. \<open>friendship_keys d\<close>: the primary key
  of \<open>friendships\<close>, that is, the ids are distinct and all below the next value of
  the sequence.
\<close>

definition edge_between :: "int \<Rightarrow> int \<Rightarrow> friendship_row \<Rightarrow> bool" where
  "edge_between a b f =
     ((requester_id f = a \<and> addressee_id f = b) \<or> (requester_id f = b \<and> addressee_id f = a))"

definition declined_pair :: "db \<Rightarrow> int \<Rightarrow> int \<Rightarrow> bool" where
  "declined_pair d a b =
     ((\<exists>f \<in> set (friendships d). edge_between a b f)
      \<and> (\<forall>f \<in> set (friendships d). edge_between a b f \<longrightarrow> status f = ''declined''))"

definition friendship_keys :: "db \<Rightarrow> bool" where
  "friendship_keys d =
     (distinct (map f_id (friendships d))
      \<and> (\<forall>f \<in> set (friendships d). f_id f < friendships_seq d))"

section \<open>A concrete store\<close>

text \<open>
  Users 1 to 4. User 1 owns photo 5 (policy \<open>friends\<close>), which lies in the public album 3
  of user 1, and photo 6 (policy \<open>custom\<close>, group 10). Users 1 and 3 are friends; user 2
  has declined a request of user 1; user 4 has no edge to user 1. User 1 has shared photo 5
  with user 2 without expiry, and album 3 with user 4 until time 50. Group 10 of user 1
  lists user 2, in \<open>access_permissions\<close> and in \<open>permission_groups\<close> alike.
\<close>

definition example_users :: "user_row list" where
  "example_users =
     [\<lparr>u_id = 1, username = ''an'', display_name = ''An''\<rparr>,
      \<lparr>u_id = 2, username = ''binh'', display_name = ''Binh''\<rparr>,
      \<lparr>u_id = 3, username = ''chi'', display_name = ''Chi''\<rparr>,
      \<lparr>u_id = 4, username = ''dung'', display_name = ''Dung''\<rparr>]"

definition example_photo :: photo_row where
  "example_photo =
     \<lparr>p_id = 5, p_user_id = 1, file_path = ''photos/1/a.jpg'', filename = ''a.jpg'',
      permission_type = ''friends'', custom_group_id = None, p_is_deleted = False\<rparr>"

definition example_album :: album_row where
  "example_album = \<lparr>a_id = 3, a_user_id = 1, a_name = ''Trip'', privacy_type = ''public''\<rparr>"

definition example_grant :: photo_share_row where
  "example_grant =
     \<lparr>ps_id = 1, ps_shared_by = 1, ps_shared_with = 2, ps_photo_id = Some 5,
      ps_album_id = None, ps_permission_level = ''view'', ps_expires_at = None,
      ps_is_active = True, ps_created_at = 10\<rparr>"

definition example_expired_grant :: photo_share_row where
  "example_expired_grant =
     \<lparr>ps_id = 2, ps_shared_by = 1, ps_shared_with = 4, ps_photo_id = None,
      ps_album_id = Some 3, ps_permission_level = ''view'', ps_expires_at = Some 50,
      ps_is_active = True, ps_created_at = 20\<rparr>"

definition example_group :: permission_group_row where
  "example_group =
     \<lparr>pg_id = 10, pg_owner_id = 1, pg_name = ''Family'', pg_description = None,
      pg_is_active = True\<rparr>"

definition example_store :: db where
  "example_store =
     \<lparr>users = example_users,
      friendships =
        [\<lparr>f_id = 1, requester_id = 3, addressee_id = 1, status = ''accepted''\<rparr>,
         \<lparr>f_id = 2, requester_id = 1, addressee_id = 2, status = ''declined''\<rparr>],
      friendships_seq = 3,
      photos =
        [example_photo,
         \<lparr>p_id = 6, p_user_id = 1, file_path = ''/photos/1/b.jpg'', filename = ''b.jpg'',
          permission_type = ''custom'', custom_group_id = Some 10, p_is_deleted = False\<rparr>],
      access_permissions =
        [\<lparr>ap_id = 10, ap_user_id = 1, group_name = ''Family'',
          ap_description = None, allowed_user_ids = Some [2]\<rparr>],
      albums = [example_album],
      album_photos = [\<lparr>ap_album_id = 3, ap_photo_id = 5\<rparr>],
      photo_shares = [example_grant, example_expired_grant],
      album_shares = [],
      permission_groups = [example_group],
      permission_groups_seq = 11,
      permission_group_members =
        [\<lparr>pgm_group_id = 10, pgm_user_id = 2, pgm_added_at = 5\<rparr>]\<rparr>"

text \<open>The same store with album 3 private.\<close>

definition example_private_store :: db where
  "example_private_store =
     example_store\<lparr>albums := [example_album\<lparr>privacy_type := ''private''\<rparr>]\<rparr>"

section \<open>Auxiliary facts about query results\<close>

lemma first_row_mem: "first_row xs = Some x \<Longrightarrow> x \<in> set xs"
  by (cases xs) (simp_all add: first_row_def)

lemma first_row_None_iff: "first_row xs = None \<longleftrightarrow> xs = []"
  by (cases xs) (simp_all add: first_row_def)

section \<open>Ownership override\<close>

text \<open>
  C7. For every store, every visibility policy value (also an unknown or malformed one) and
  every custom group id, resolving access to a photo for its owner (viewer = owner) returns
  \<open>hasPermission = true\<close> with the reason \<open>Owner access\<close>: the answer does not depend
  on the policy, nor on any friendship, group or share state. The same holds for an album
  that exists: its owner is allowed with \<open>Owner access\<close>, whatever its privacy type and
  whatever shares and friendships exist.
\<close>

theorem C7_owner_always_allowed:
  "checkPhotoPermission d ownerId ownerId permissionType customGroupId
     = \<lparr>hasPermission = True, reason = ''Owner access''\<rparr>
   \<and> (first_row [a. a \<leftarrow> albums d, u \<leftarrow> users d, a_user_id a = u_id u, a_id a = albumId]
          = Some alb
        \<longrightarrow> checkAlbumPermission d now (a_user_id alb) albumId
              = \<lparr>hasPermission = True, reason = ''Owner access'', album = Some alb\<rparr>)"
proof -
  have photo_owner: "checkPhotoPermission d ownerId ownerId permissionType customGroupId
                 = \<lparr>hasPermission = True, reason = ''Owner access''\<rparr>"
    by (simp add: checkPhotoPermission_def)
  have album_owner: "checkAlbumPermission d now (a_user_id alb) albumId
                 = \<lparr>hasPermission = True, reason = ''Owner access'', album = Some alb\<rparr>"
    if "first_row [a. a \<leftarrow> albums d, u \<leftarrow> users d, a_user_id a = u_id u, a_id a = albumId]
          = Some alb"
  proof -
    from that obtain rest
      where rows: "[a. a \<leftarrow> albums d, u \<leftarrow> users d, a_user_id a = u_id u, a_id a = albumId]
                     = alb # rest"
      by (cases "[a. a \<leftarrow> albums d, u \<leftarrow> users d, a_user_id a = u_id u, a_id a = albumId]")
         (simp_all add: first_row_def)
    show ?thesis
      unfolding checkAlbumPermission_def rows by simp
  qed
  from photo_owner album_owner show ?thesis by blast
qed

theorem C7_owner_always_allowed_witness:
  "checkPhotoPermission example_store 1 1 ''no such policy'' (Some 77)
     = \<lparr>hasPermission = True, reason = ''Owner access''\<rparr>
   \<and> first_row [a. a \<leftarrow> albums example_private_store, u \<leftarrow> users example_private_store,
                  a_user_id a = u_id u, a_id a = 3]
       = Some (example_album\<lparr>privacy_type := ''private''\<rparr>)
   \<and> checkAlbumPermission example_private_store 100 1 3
       = \<lparr>hasPermission = True, reason = ''Owner access'',
          album = Some (example_album\<lparr>privacy_type := ''private''\<rparr>)\<rparr>"
proof -
  have found: "first_row [a. a \<leftarrow> albums example_private_store,
                             u \<leftarrow> users example_private_store,
                             a_user_id a = u_id u, a_id a = 3]
                 = Some (example_album\<lparr>privacy_type := ''private''\<rparr>)"
    by (simp add: first_row_def example_private_store_def example_store_def
          example_users_def example_album_def)
  have ownr: "a_user_id (example_album\<lparr>privacy_type := ''private''\<rparr>) = 1"
    by (simp add: example_album_def)
  from C7_owner_always_allowed
         [where d = example_private_store and albumId = 3 and now = 100 and ownerId = 1
            and alb = "example_album\<lparr>privacy_type := ''private''\<rparr>"
            and permissionType = "''no such policy''" and customGroupId = "Some 77"]
    found ownr
  have "checkAlbumPermission example_private_store 100 1 3
          = \<lparr>hasPermission = True, reason = ''Owner access'',
             album = Some (example_album\<lparr>privacy_type := ''private''\<rparr>)\<rparr>"
    by simp
  moreover have "checkPhotoPermission example_store 1 1 ''no such policy'' (Some 77)
     = \<lparr>hasPermission = True, reason = ''Owner access''\<rparr>"
    using C7_owner_always_allowed [where d = example_store and ownerId = 1] by blast
  ultimately show ?thesis using found by simp
qed

section \<open>Friends and close friends\<close>

lemma areFriends_iff_edge:
  "areFriends d a b \<longleftrightarrow>
     (\<exists>f \<in> set (friendships d).
        ((requester_id f = a \<and> addressee_id f = b) \<or> (requester_id f = b \<and> addressee_id f = a))
        \<and> status f = ''accepted'')"
  by (auto simp: areFriends_def filter_empty_conv)

text \<open>
  C8. For every store, viewer, owner and custom group id, resolving a photo under the policy
  \<open>close_friends\<close> gives the very result (verdict and reason) of resolving it under the
  policy \<open>friends\<close>; and for a viewer other than the owner that verdict is: allowed if and
  only if \<open>friendships\<close> holds an accepted edge between the two, in either direction.
\<close>

theorem C8_close_friends_as_friends:
  "checkPhotoPermission d v ownr ''close_friends'' g = checkPhotoPermission d v ownr ''friends'' g
   \<and> (v \<noteq> ownr \<longrightarrow>
        (hasPermission (checkPhotoPermission d v ownr ''close_friends'' g) \<longleftrightarrow>
           (\<exists>f \<in> set (friendships d).
              ((requester_id f = v \<and> addressee_id f = ownr)
               \<or> (requester_id f = ownr \<and> addressee_id f = v))
              \<and> status f = ''accepted'')))"
  by (simp add: checkPhotoPermission_def Let_def areFriends_iff_edge)

theorem C8_close_friends_as_friends_witness:
  "(3::int) \<noteq> 1
   \<and> hasPermission (checkPhotoPermission example_store 3 1 ''close_friends'' None)
   \<and> checkPhotoPermission example_store 3 1 ''close_friends'' None
       = checkPhotoPermission example_store 3 1 ''friends'' None"
proof -
  have edge: "\<exists>f \<in> set (friendships example_store).
                ((requester_id f = 3 \<and> addressee_id f = 1)
                 \<or> (requester_id f = 1 \<and> addressee_id f = 3))
                \<and> status f = ''accepted''"
    by (simp add: example_store_def)
  have neq: "(3::int) \<noteq> 1" by simp
  from C8_close_friends_as_friends [of example_store 3 1 None] edge neq
  show ?thesis by blast
qed

section \<open>Share grants and photo access\<close>

text \<open>
  Counterexample to C1 as stated. In the concrete store user 1 has shared photo 5 with user
  2 by a grant that is active and has no expiry, and the two are not friends. Resolution
  of that \<open>friends\<close> photo for user 2 denies with \<open>Not friends\<close>, and reading the
  photo throws \<open>Access denied: Not friends\<close>.
\<close>

theorem C1_grant_not_consulted_counterexample:
  "example_grant \<in> set (photo_shares example_store)
   \<and> ps_shared_by example_grant = 1 \<and> ps_shared_with example_grant = 2
   \<and> ps_photo_id example_grant = Some 5
   \<and> share_effective_condition 100 (ps_is_active example_grant) (ps_expires_at example_grant)
   \<and> PhotoModel_findById example_store 5 = Some example_photo
   \<and> p_user_id example_photo = 1 \<and> permission_type example_photo = ''friends''
   \<and> checkPhotoPermission example_store 2 1 ''friends'' None
       = \<lparr>hasPermission = False, reason = ''Not friends''\<rparr>
   \<and> getPhotoById example_store 5 2 = Inl ''Access denied: Not friends''"
  by (simp add: example_store_def example_grant_def example_photo_def example_users_def
        share_effective_condition_def PhotoModel_findById_def first_row_def
        getPhotoById_def checkPhotoPermission_def areFriends_def)

text \<open>
  C1, amended. Photo access resolution does not consult share grants: for every viewer,
  owner, policy and group id, \<open>checkPhotoPermission\<close> and \<open>getPhotoById\<close> give the
  same result whatever the contents of \<open>photo_shares\<close> and \<open>album_shares\<close>, so the
  verdict comes from ownership and the visibility policy alone; in particular a viewer
  who is neither the owner nor a friend of the owner is denied a \<open>friends\<close> photo with
  the reason \<open>Not friends\<close>, with or without a grant.
\<close>

theorem C1_resolution_ignores_grants:
  "checkPhotoPermission (d\<lparr>photo_shares := pss, album_shares := alss\<rparr>) v ownr policy g
     = checkPhotoPermission d v ownr policy g
   \<and> getPhotoById (d\<lparr>photo_shares := pss, album_shares := alss\<rparr>) photoId v
       = getPhotoById d photoId v
   \<and> (v \<noteq> ownr \<and> \<not> areFriends d v ownr \<longrightarrow>
        checkPhotoPermission (d\<lparr>photo_shares := pss, album_shares := alss\<rparr>) v ownr ''friends'' g
          = \<lparr>hasPermission = False, reason = ''Not friends''\<rparr>)"
proof -
  let ?d = "d\<lparr>photo_shares := pss, album_shares := alss\<rparr>"
  have friends: "areFriends ?d a b = areFriends d a b" for a b
    by (simp add: areFriends_def)
  have check: "checkPhotoPermission ?d a b p k = checkPhotoPermission d a b p k" for a b p k
    by (cases k) (simp_all add: checkPhotoPermission_def friends)
  have found: "PhotoModel_findById ?d i = PhotoModel_findById d i" for i
    by (simp add: PhotoModel_findById_def)
  have grp: "PhotoModel_getCustomGroup ?d i = PhotoModel_getCustomGroup d i" for i
    by (simp add: PhotoModel_getCustomGroup_def)
  have read: "getPhotoById ?d photoId v = getPhotoById d photoId v"
    by (simp add: getPhotoById_def check found grp cong: option.case_cong if_cong)
  have deny: "v \<noteq> ownr \<and> \<not> areFriends d v ownr \<longrightarrow>
                checkPhotoPermission ?d v ownr ''friends'' g
                  = \<lparr>hasPermission = False, reason = ''Not friends''\<rparr>"
    by (simp add: check) (simp add: checkPhotoPermission_def)
  from check read deny show ?thesis by blast
qed

theorem C1_resolution_ignores_grants_witness:
  "(2::int) \<noteq> 1 \<and> \<not> areFriends example_store 2 1
   \<and> checkPhotoPermission (example_store\<lparr>photo_shares := [example_grant], album_shares := []\<rparr>)
        2 1 ''friends'' None
       = \<lparr>hasPermission = False, reason = ''Not friends''\<rparr>"
proof -
  have neq: "(2::int) \<noteq> 1" by simp
  have nf: "\<not> areFriends example_store 2 1"
    by (simp add: areFriends_def example_store_def)
  from C1_resolution_ignores_grants
         [where d = example_store and pss = "[example_grant]" and alss = "[]"
            and v = 2 and ownr = 1 and g = None]
    neq nf
  show ?thesis by blast
qed

section \<open>Photos inside albums\<close>

text \<open>
  Counterexample to C2 as stated. In the concrete store photo 5 (policy \<open>friends\<close>, owner
  1) lies in album 3 (public, owner 1); user 2 is neither user 1 nor a friend of user 1.
  Reading photo 5 as user 2 throws \<open>Access denied: Not friends\<close>.
\<close>

theorem C2_album_path_not_taken_counterexample:
  "PhotoModel_findById example_store 5 = Some example_photo
   \<and> permission_type example_photo = ''friends'' \<and> p_user_id example_photo = 1
   \<and> example_album \<in> set (albums example_store)
   \<and> privacy_type example_album = ''public'' \<and> a_user_id example_album = 1
   \<and> \<lparr>ap_album_id = a_id example_album, ap_photo_id = p_id example_photo\<rparr>
        \<in> set (album_photos example_store)
   \<and> \<not> areFriends example_store 2 1
   \<and> getPhotoById example_store 5 2 = Inl ''Access denied: Not friends''"
  by (simp add: example_store_def example_photo_def example_album_def example_users_def
        PhotoModel_findById_def first_row_def getPhotoById_def checkPhotoPermission_def
        areFriends_def)

text \<open>
  C2, amended. Reading a photo resolves access at the photo level only: for every photo
  with policy \<open>friends\<close> and every viewer who is neither its owner nor a friend of its
  owner, \<open>getPhotoById\<close> throws \<open>Access denied: Not friends\<close>, whatever albums exist
  and whatever albums contain the photo (the tables \<open>albums\<close> and \<open>album_photos\<close> are
  not consulted).
\<close>

theorem C2_photo_read_ignores_albums:
  assumes "PhotoModel_findById d photoId = Some ph"
    and "permission_type ph = ''friends''"
    and "v \<noteq> p_user_id ph"
    and "\<not> areFriends d v (p_user_id ph)"
  shows "getPhotoById (d\<lparr>albums := albs, album_photos := aps\<rparr>) photoId v
           = Inl ''Access denied: Not friends''"
proof -
  let ?d = "d\<lparr>albums := albs, album_photos := aps\<rparr>"
  have found: "PhotoModel_findById ?d photoId = Some ph"
    using assms(1) by (simp add: PhotoModel_findById_def)
  have friends: "areFriends ?d v (p_user_id ph) = False"
    using assms(4) by (simp add: areFriends_def)
  have "checkPhotoPermission ?d v (p_user_id ph) ''friends'' (custom_group_id ph)
          = \<lparr>hasPermission = False, reason = ''Not friends''\<rparr>"
    using assms(3) by (simp add: checkPhotoPermission_def friends)
  then show ?thesis
    using found assms(2) by (simp add: getPhotoById_def)
qed

theorem C2_photo_read_ignores_albums_witness:
  "PhotoModel_findById example_store 5 = Some example_photo
   \<and> permission_type example_photo = ''friends''
   \<and> (2::int) \<noteq> p_user_id example_photo
   \<and> \<not> areFriends example_store 2 (p_user_id example_photo)
   \<and> getPhotoById (example_store\<lparr>albums := [example_album],
                                   album_photos := [\<lparr>ap_album_id = 3, ap_photo_id = 5\<rparr>]\<rparr>) 5 2
       = Inl ''Access denied: Not friends''"
proof -
  have a: "PhotoModel_findById example_store 5 = Some example_photo"
    by (simp add: example_store_def example_photo_def example_users_def
          PhotoModel_findById_def first_row_def)
  have b: "permission_type example_photo = ''friends''"
    by (simp add: example_photo_def)
  have c: "(2::int) \<noteq> p_user_id example_photo"
    by (simp add: example_photo_def)
  have e: "\<not> areFriends example_store 2 (p_user_id example_photo)"
    by (simp add: example_photo_def example_store_def areFriends_def)
  from C2_photo_read_ignores_albums [OF a b c e] a b c e show ?thesis by simp
qed

section \<open>Custom groups\<close>

text \<open>
  Counterexample to C6 as stated. Photo 6 of user 1 has the policy \<open>custom\<close> with group
  10. After user 1 soft-deletes group 10 (\<open>PermissionModel.deletePermissionGroup\<close>; the
  lookup \<open>PermissionModel.getPermissionGroupById\<close> then finds no group), resolution for
  the non-owner user 2 still allows, with the reason \<open>Custom group access\<close>.
\<close>

theorem C6_soft_deleted_group_counterexample:
  "fst (PermissionModel_deletePermissionGroup example_store 10 1)
     = Some (example_group\<lparr>pg_is_active := False\<rparr>)
   \<and> PermissionModel_getPermissionGroupById
         (snd (PermissionModel_deletePermissionGroup example_store 10 1)) 10 1
       = None
   \<and> checkPhotoPermission (snd (PermissionModel_deletePermissionGroup example_store 10 1))
        2 1 ''custom'' (Some 10)
       = \<lparr>hasPermission = True, reason = ''Custom group access''\<rparr>"
  by (simp add: example_store_def example_group_def PermissionModel_deletePermissionGroup_def
        first_row_def PermissionModel_getPermissionGroupById_def
        checkPhotoPermission_def Let_def)

text \<open>
  C6, amended. For every viewer other than the owner and every photo with the policy
  \<open>custom\<close>, resolution allows if and only if the group id is set (and not 0), a row of
  \<open>access_permissions\<close> has that id and the photo's owner as its user, and the viewer is
  listed in \<open>allowed_user_ids\<close> of the first such row (a \<open>NULL\<close> list being empty). The tables \<open>permission_groups\<close>
  and \<open>permission_group_members\<close>, and so the soft-delete flag, are not consulted. A
  missing group id yields deny.
\<close>

theorem C6_custom_policy_resolution:
  assumes "v \<noteq> ownr"
  shows "(hasPermission (checkPhotoPermission d v ownr ''custom'' g) \<longleftrightarrow>
            (\<exists>gid r. g = Some gid \<and> gid \<noteq> 0
               \<and> first_row (filter (\<lambda>r. ap_id r = gid \<and> ap_user_id r = ownr)
                                (access_permissions d)) = Some r
               \<and> v \<in> set (case allowed_user_ids r of None \<Rightarrow> [] | Some ids \<Rightarrow> ids)))
         \<and> checkPhotoPermission
              (d\<lparr>permission_groups := pgs, permission_group_members := pgms\<rparr>) v ownr ''custom'' g
             = checkPhotoPermission d v ownr ''custom'' g
         \<and> hasPermission (checkPhotoPermission d v ownr ''custom'' None) = False"
proof -
  have iff: "hasPermission (checkPhotoPermission d v ownr ''custom'' g) \<longleftrightarrow>
            (\<exists>gid r. g = Some gid \<and> gid \<noteq> 0
               \<and> first_row (filter (\<lambda>r. ap_id r = gid \<and> ap_user_id r = ownr)
                                (access_permissions d)) = Some r
               \<and> v \<in> set (case allowed_user_ids r of None \<Rightarrow> [] | Some ids \<Rightarrow> ids))"
    using assms
    by (auto simp: checkPhotoPermission_def first_row_def Let_def
             split: option.splits list.splits)
  have same: "checkPhotoPermission
              (d\<lparr>permission_groups := pgs, permission_group_members := pgms\<rparr>) v ownr ''custom'' g
             = checkPhotoPermission d v ownr ''custom'' g"
    by (cases g) (simp_all add: checkPhotoPermission_def areFriends_def)
  have none: "hasPermission (checkPhotoPermission d v ownr ''custom'' None) = False"
    using assms by (simp add: checkPhotoPermission_def)
  from iff same none show ?thesis by blast
qed

theorem C6_custom_policy_resolution_witness:
  "(2::int) \<noteq> 1
   \<and> hasPermission (checkPhotoPermission example_store 2 1 ''custom'' (Some 10))
   \<and> hasPermission (checkPhotoPermission example_store 2 1 ''custom'' None) = False"
proof -
  have neq: "(2::int) \<noteq> 1" by simp
  have row: "\<exists>gid r. Some (10::int) = Some gid \<and> gid \<noteq> 0
               \<and> first_row (filter (\<lambda>r. ap_id r = gid \<and> ap_user_id r = 1)
                                (access_permissions example_store)) = Some r
               \<and> (2::int) \<in> set (case allowed_user_ids r of None \<Rightarrow> [] | Some ids \<Rightarrow> ids)"
    by (simp add: example_store_def first_row_def)
  from C6_custom_policy_resolution [OF neq, where d = example_store and g = "Some 10"] row neq
  show ?thesis by blast
qed

section \<open>Group creation with invalid members\<close>

lemma validIds_are_friends:
  "i \<in> set (validIds (validateFriendships d cur ids)) \<Longrightarrow> areFriends d cur i"
  by (auto simp: validateFriendships_def Let_def areFriends_iff_edge split: if_splits)

lemma invalid_member_detected:
  assumes "i \<in> set ids"
    and "(\<forall>u \<in> set (users d). u_id u \<noteq> i) \<or> \<not> areFriends d cur i"
  shows "\<not> valid (validateFriendships d cur ids)
         \<and> i \<in> set (invalidIds (validateFriendships d cur ids))"
proof -
  from assms(1) have nonempty: "length ids \<noteq> 0" by auto
  let ?existing = "[u_id u. u \<leftarrow> users d, u_id u \<in> set ids]"
  let ?val = "validateFriendships d cur ids"
  have unfold:
    "nonExistentIds ?val = filter (\<lambda>j. j \<notin> set ?existing) ids"
    "nonFriendIds ?val = filter (\<lambda>j. j \<notin> set (validIds ?val)) ?existing"
    "invalidIds ?val = nonExistentIds ?val @ nonFriendIds ?val"
    "valid ?val = (length (nonExistentIds ?val) = 0 \<and> length (nonFriendIds ?val) = 0)"
    using nonempty by (simp_all add: validateFriendships_def Let_def)
  have "i \<in> set (nonExistentIds ?val) \<or> i \<in> set (nonFriendIds ?val)"
  proof (cases "i \<in> set ?existing")
    case False
    with assms(1) show ?thesis by (simp add: unfold(1))
  next
    case True
    then have "\<exists>u \<in> set (users d). u_id u = i" by auto
    with assms(2) have "\<not> areFriends d cur i" by blast
    then have "i \<notin> set (validIds ?val)" using validIds_are_friends by blast
    with True show ?thesis by (simp add: unfold(2))
  qed
  then show ?thesis
    unfolding unfold(3) unfold(4) by auto
qed

text \<open>
  Counterexample to C3 as stated. User 1 creates a group with the member list 3, 4, 9:
  user 3 is a friend, user 4 exists but is not a friend, and no user 9 exists. The
  validation lists 9 and 4 as invalid. The call does not succeed with the valid id 3
  alone: it ends in a thrown \<open>TypeError\<close> (the guard calls \<open>createErrorResponse\<close>,
  which is not a function, and so does the \<open>catch\<close>), and the store is unchanged, so no
  group is created.
\<close>

theorem C3_invalid_member_fatal_counterexample:
  "areFriends example_store 1 3 \<and> \<not> areFriends example_store 1 4
   \<and> UserModel_findById example_store 9 = None
   \<and> invalidIds (validateFriendships example_store 1 [3, 4, 9]) = [9, 4]
   \<and> createPermissionGroup example_store 100 1
        \<lparr>gd_name = ''Hikers'', gd_description = None, userIds = Some [3, 4, 9]\<rparr>
       = (Inl ''TypeError: createErrorResponse is not a function'', example_store)"
  by (simp add: example_store_def example_users_def areFriends_def UserModel_findById_def
        first_row_def createPermissionGroup_def validateFriendships_def Let_def
        createErrorResponse_def)

text \<open>
  C3, amended. For every owner and member list containing at least one id that does not
  exist or is not currently a friend of the owner, group creation is refused rather than
  carried out with the valid ids: the validation reports the list as not valid, with the
  offending id among the invalid ids, the guard of the service stops before the insert,
  and the store is left unchanged, so no group row and no member row is created.
\<close>

theorem C3_invalid_member_rejects_creation:
  assumes "userIds groupData = Some ids"
    and "i \<in> set ids"
    and "(\<forall>u \<in> set (users d). u_id u \<noteq> i) \<or> \<not> areFriends d userId i"
  shows "snd (createPermissionGroup d now userId groupData) = d
         \<and> \<not> valid (validateFriendships d userId ids)
         \<and> i \<in> set (invalidIds (validateFriendships d userId ids))"
proof -
  from assms(2) have nonempty: "0 < length ids" by auto
  from invalid_member_detected [OF assms(2) assms(3)]
  have bad: "\<not> valid (validateFriendships d userId ids)"
    and listed: "i \<in> set (invalidIds (validateFriendships d userId ids))"
    by simp_all
  from nonempty bad assms(1)
  have "snd (createPermissionGroup d now userId groupData) = d"
    by (simp add: createPermissionGroup_def Let_def createErrorResponse_def)
  with bad listed show ?thesis by simp
qed

theorem C3_invalid_member_rejects_creation_witness:
  "(4::int) \<in> set [3, 4]
   \<and> \<not> areFriends example_store 1 4
   \<and> snd (createPermissionGroup example_store 100 1
          \<lparr>gd_name = ''Hikers'', gd_description = None, userIds = Some [3, 4]\<rparr>)
       = example_store
   \<and> invalidIds (validateFriendships example_store 1 [3, 4]) = [4]"
proof -
  have a: "userIds \<lparr>gd_name = ''Hikers'', gd_description = None, userIds = Some [3, 4]\<rparr>
             = Some [3, 4]"
    by simp
  have b: "(4::int) \<in> set [3, 4]" by simp
  have c: "(\<forall>u \<in> set (users example_store). u_id u \<noteq> 4) \<or> \<not> areFriends example_store 1 4"
    by (simp add: areFriends_def example_store_def)
  have nf: "\<not> areFriends example_store 1 4"
    by (simp add: areFriends_def example_store_def)
  have msg: "invalidIds (validateFriendships example_store 1 [3, 4]) = [4]"
    by (simp add: validateFriendships_def Let_def example_store_def example_users_def)
  from C3_invalid_member_rejects_creation [OF a b c, of 100] b nf msg
  show ?thesis by simp
qed

section \<open>Group lookup\<close>

text \<open>
  The service lookup never returns: whatever the store, the group id and the caller, the
  \<open>try\<close> body calls one of the two response helpers, which throws, and the \<open>catch\<close>
  calls \<open>createErrorResponse\<close>, which throws again.
\<close>

lemma service_lookup_always_throws:
  "getPermissionGroupById d g u = Inl ''TypeError: createErrorResponse is not a function''"
  by (simp add: getPermissionGroupById_def createErrorResponse_def createSuccessResponse_def
        split: option.splits)

text \<open>
  C9. The claim: a lookup of a group that does not exist, that belongs to another user or
  that is soft-deleted gives the caller one and the same observable \<open>not found\<close>
  outcome. The code at concrete inputs: in the three cases (group 10 absent from the
  store; group 10 of user 1 looked up by user 2; group 10 after its soft delete) the
  lookup of \<open>PermissionModel\<close> returns \<open>null\<close>, but the service, which goes on to call
  \<open>createErrorResponse('Permission group not found', 404)\<close>, throws
  \<open>TypeError: createErrorResponse is not a function\<close> instead of returning a \<open>not
  found\<close> response; it throws the same for the owner of the existing group.
\<close>

theorem C9_lookup_throws_instead_of_not_found:
  "PermissionModel_getPermissionGroupById (example_store\<lparr>permission_groups := []\<rparr>) 10 1
     = None
   \<and> PermissionModel_getPermissionGroupById example_store 10 2 = None
   \<and> PermissionModel_getPermissionGroupById
         (snd (PermissionModel_deletePermissionGroup example_store 10 1)) 10 1
       = None
   \<and> getPermissionGroupById (example_store\<lparr>permission_groups := []\<rparr>) 10 1
       = Inl ''TypeError: createErrorResponse is not a function''
   \<and> getPermissionGroupById example_store 10 2
       = Inl ''TypeError: createErrorResponse is not a function''
   \<and> getPermissionGroupById
         (snd (PermissionModel_deletePermissionGroup example_store 10 1)) 10 1
       = Inl ''TypeError: createErrorResponse is not a function''
   \<and> PermissionModel_getPermissionGroupById example_store 10 1 \<noteq> None
   \<and> getPermissionGroupById example_store 10 1
       = Inl ''TypeError: createErrorResponse is not a function''"
  by (simp add: getPermissionGroupById_def createErrorResponse_def createSuccessResponse_def
        PermissionModel_getPermissionGroupById_def PermissionModel_deletePermissionGroup_def
        example_store_def example_group_def Let_def)

section \<open>Revoking and reactivating a share\<close>

lemma photoShareQuery_no_sharer_id:
  "row \<in> set (photoShareQuery d sid) \<Longrightarrow> js_get row ''sharer_id'' = JUndefined"
  by (auto simp: photoShareQuery_def js_get_def photo_share_columns_def split: if_splits)

lemma albumShareQuery_no_sharer_id:
  "row \<in> set (albumShareQuery d sid) \<Longrightarrow> js_get row ''sharer_id'' = JUndefined"
  by (auto simp: albumShareQuery_def js_get_def album_share_columns_def split: if_splits)

lemma getShareById_no_sharer_id:
  assumes "getShareById d sid = Some share"
  shows "js_get share ''sharer_id'' = JUndefined"
proof (cases "first_row (photoShareQuery d sid)")
  case None
  with assms have "first_row (albumShareQuery d sid) = Some share"
    by (simp add: getShareById_def)
  then show ?thesis
    by (blast intro: albumShareQuery_no_sharer_id first_row_mem)
next
  case (Some row)
  with assms have "first_row (photoShareQuery d sid) = Some share"
    by (simp add: getShareById_def)
  then show ?thesis
    by (blast intro: photoShareQuery_no_sharer_id first_row_mem)
qed

text \<open>
  No row that \<open>getShareById\<close> returns has a property \<open>sharer_id\<close> (the queries select
  the column as \<open>shared_by\<close>), so the ownership test of \<open>updateShare\<close> fails for every
  requester: the service throws and leaves the store as it was.
\<close>

lemma updateShare_always_throws:
  "\<exists>msg. SharingService_updateShare d sid uid upd = (Inl msg, d)"
  by (auto simp: SharingService_updateShare_def getShareById_no_sharer_id split: option.splits)

text \<open>
  C4. The claim: revoking and reactivating an existing share succeeds exactly when the
  requester is its sharer. The code at a concrete input: share 1 of the concrete store
  exists and was created by user 1 (\<open>shared_by = 1\<close>), its row has no property
  \<open>sharer_id\<close>, and both \<open>revokeShare(1, 1)\<close> and \<open>reactivateShare(1, 1)\<close>, called by
  that sharer, throw \<open>Only the sharer can modify this share\<close> and change nothing.
\<close>

theorem C4_sharer_cannot_revoke_own_share:
  "(\<exists>share. getShareById example_store 1 = Some share
            \<and> js_get share ''shared_by'' = JNum 1
            \<and> js_get share ''sharer_id'' = JUndefined)
   \<and> revokeShare example_store 1 1
       = (Inl ''Only the sharer can modify this share'', example_store)
   \<and> reactivateShare example_store 1 1
       = (Inl ''Only the sharer can modify this share'', example_store)"
  by (simp add: revokeShare_def reactivateShare_def SharingService_updateShare_def
        getShareById_def photoShareQuery_def first_row_def example_store_def
        example_users_def example_grant_def example_expired_grant_def example_photo_def
        left_join_file_name_def js_get_def photo_share_columns_def)

section \<open>Expiry of shares\<close>

lemma concat_map_filter_irrelevant:
  "(\<And>x. x \<in> set xs \<Longrightarrow> \<not> keep x \<Longrightarrow> f x = []) \<Longrightarrow>
   concat (map f (filter keep xs)) = concat (map f xs)"
  by (induction xs) auto

lemma expired_not_effective:
  "expired_at now e \<Longrightarrow> \<not> share_effective_condition now act e"
  by (auto simp: expired_at_def share_effective_condition_def split: option.splits)

lemma expired_not_active_status:
  "expired_at now e \<Longrightarrow> \<not> status_where ''active'' now um act e"
  by (simp add: status_where_def expired_not_effective)

lemma left_join_file_name_without_expired:
  "left_join_file_name (without_expired now d) s = left_join_file_name d s"
  by (simp add: left_join_file_name_def without_expired_def)

lemma left_join_album_name_without_expired:
  "left_join_album_name (without_expired now d) s = left_join_album_name d s"
  by (simp add: left_join_album_name_def without_expired_def)

lemma photoSharesQuery_without_expired:
  "photoSharesQuery (without_expired now d) now u type ''active''
     = photoSharesQuery d now u type ''active''"
proof -
  have users: "users (without_expired now d) = users d"
    and shares: "photo_shares (without_expired now d)
                   = filter (\<lambda>s. \<not> expired_at now (ps_expires_at s)) (photo_shares d)"
    by (simp_all add: without_expired_def)
  show ?thesis
    unfolding photoSharesQuery_def users shares left_join_file_name_without_expired
    by (auto intro!: concat_map_filter_irrelevant simp: expired_not_active_status)
qed

lemma albumSharesQuery_without_expired:
  "albumSharesQuery (without_expired now d) now u type ''active''
     = albumSharesQuery d now u type ''active''"
proof -
  have users: "users (without_expired now d) = users d"
    and shares: "album_shares (without_expired now d)
                   = filter (\<lambda>s. \<not> expired_at now (als_expires_at s)) (album_shares d)"
    by (simp_all add: without_expired_def)
  show ?thesis
    unfolding albumSharesQuery_def users shares left_join_album_name_without_expired
    by (auto intro!: concat_map_filter_irrelevant simp: expired_not_active_status)
qed

lemma getSharesByUser_without_expired:
  "getSharesByUser (without_expired now d) now u type (opts\<lparr>status_filter := ''active''\<rparr>)
     = getSharesByUser d now u type (opts\<lparr>status_filter := ''active''\<rparr>)"
proof -
  have sf: "status_filter (opts\<lparr>status_filter := ''active''\<rparr>) = ''active''" by simp
  show ?thesis
    unfolding getSharesByUser_def sf photoSharesQuery_without_expired
      albumSharesQuery_without_expired
    by (rule refl)
qed

lemma checkAlbumPermission_without_expired:
  "checkAlbumPermission (without_expired now d) now v a = checkAlbumPermission d now v a"
proof -
  have [simp]: "users (without_expired now d) = users d"
     "albums (without_expired now d) = albums d"
     "photo_shares (without_expired now d)
                   = filter (\<lambda>s. \<not> expired_at now (ps_expires_at s)) (photo_shares d)"
    "areFriends (without_expired now d) x y = areFriends d x y" for x y
    by (simp_all add: without_expired_def areFriends_def)
  have eq: "(\<not> expired_at now e \<and> P \<and> Q \<and> R \<and> share_effective_condition now act e)
             = (P \<and> Q \<and> R \<and> share_effective_condition now act e)" for e P Q R act
    using expired_not_effective by blast
  show ?thesis
    by (simp add: checkAlbumPermission_def eq Let_def cong: list.case_cong if_cong)
qed

lemma filter_map_unaffected:
  "\<forall>x \<in> set xs. f x = x \<or> (\<not> P x \<and> \<not> P (f x)) \<Longrightarrow>
   filter P (map f xs) = filter P xs"
  by (induction xs) auto

lemma model_reactivate_keeps_expiry:
  "map (\<lambda>s. (ps_id s, ps_expires_at s))
       (photo_shares (snd (SharingModel_updateShare d sid reactivation)))
     = map (\<lambda>s. (ps_id s, ps_expires_at s)) (photo_shares d)"
  "map (\<lambda>s. (als_id s, als_expires_at s))
       (album_shares (snd (SharingModel_updateShare d sid reactivation)))
     = map (\<lambda>s. (als_id s, als_expires_at s)) (album_shares d)"
  by (auto simp: SharingModel_updateShare_def reactivation_def Let_def set_photo_share_def
        set_album_share_def split: option.splits)

lemma model_reactivate_expired_unobservable:
  assumes "\<forall>s \<in> set (photo_shares d). ps_id s = sid \<longrightarrow> expired_at now (ps_expires_at s)"
    and "\<forall>s \<in> set (album_shares d). als_id s = sid \<longrightarrow> expired_at now (als_expires_at s)"
  shows "without_expired now (snd (SharingModel_updateShare d sid reactivation))
           = without_expired now d"
proof -
  let ?f = "\<lambda>s. if ps_id s = sid then set_photo_share reactivation s else s"
  let ?g = "\<lambda>s. if als_id s = sid then set_album_share reactivation s else s"
  have p: "filter (\<lambda>s. \<not> expired_at now (ps_expires_at s)) (map ?f (photo_shares d))
             = filter (\<lambda>s. \<not> expired_at now (ps_expires_at s)) (photo_shares d)"
    using assms(1)
    by (intro filter_map_unaffected) (auto simp: set_photo_share_def reactivation_def)
  have a: "filter (\<lambda>s. \<not> expired_at now (als_expires_at s)) (map ?g (album_shares d))
             = filter (\<lambda>s. \<not> expired_at now (als_expires_at s)) (album_shares d)"
    using assms(2)
    by (intro filter_map_unaffected) (auto simp: set_album_share_def reactivation_def)
  have nonempty: "\<not> (isActive reactivation = None \<and> permissionLevel reactivation = None
         \<and> expiresAt reactivation = None)"
    by (simp add: reactivation_def)
  show ?thesis
    using p a nonempty
    by (auto simp: SharingModel_updateShare_def Let_def without_expired_def split: option.splits)
qed

text \<open>
  C5. A share whose \<open>expires_at\<close> is strictly in the past does not meet the condition of
  an effective share, whatever its \<open>is_active\<close> flag. Such shares are excluded from the
  active-share query and from the share test of the album check: both give the result
  they give on the store from which every expired share has been removed. Setting
  \<open>is_active\<close> to true on the share of a given id (the update that \<open>reactivateShare\<close>
  passes to \<open>SharingModel.updateShare\<close>) leaves the ids and the \<open>expires_at\<close> of all
  shares as they were, and the service call \<open>reactivateShare\<close> leaves the whole store
  as it was; so when the shares of that id are expired, the active-share query and the
  album check answer after the reactivation what they answered before.
\<close>

theorem C5_expired_share_never_effective:
  "(expired_at now e \<longrightarrow> \<not> share_effective_condition now True e)
   \<and> getSharesByUser d now u type (opts\<lparr>status_filter := ''active''\<rparr>)
       = getSharesByUser (without_expired now d) now u type (opts\<lparr>status_filter := ''active''\<rparr>)
   \<and> checkAlbumPermission d now v a = checkAlbumPermission (without_expired now d) now v a
   \<and> map (\<lambda>s. (ps_id s, ps_expires_at s))
         (photo_shares (snd (SharingModel_updateShare d sid reactivation)))
       = map (\<lambda>s. (ps_id s, ps_expires_at s)) (photo_shares d)
   \<and> map (\<lambda>s. (als_id s, als_expires_at s))
         (album_shares (snd (SharingModel_updateShare d sid reactivation)))
       = map (\<lambda>s. (als_id s, als_expires_at s)) (album_shares d)
   \<and> snd (reactivateShare d sid uid) = d
   \<and> ((\<forall>s \<in> set (photo_shares d). ps_id s = sid \<longrightarrow> expired_at now (ps_expires_at s))
        \<and> (\<forall>s \<in> set (album_shares d). als_id s = sid \<longrightarrow> expired_at now (als_expires_at s))
        \<longrightarrow> getSharesByUser (snd (SharingModel_updateShare d sid reactivation)) now u type
               (opts\<lparr>status_filter := ''active''\<rparr>)
             = getSharesByUser d now u type (opts\<lparr>status_filter := ''active''\<rparr>)
           \<and> checkAlbumPermission (snd (SharingModel_updateShare d sid reactivation)) now v a
               = checkAlbumPermission d now v a)"
proof -
  let ?d' = "snd (SharingModel_updateShare d sid reactivation)"
  let ?opts = "opts\<lparr>status_filter := ''active''\<rparr>"
  have service: "snd (reactivateShare d sid uid) = d"
    using updateShare_always_throws [of d sid uid reactivation]
    by (auto simp: reactivateShare_def reactivation_def)
  have after: "getSharesByUser ?d' now u type ?opts = getSharesByUser d now u type ?opts
               \<and> checkAlbumPermission ?d' now v a = checkAlbumPermission d now v a"
    if "\<forall>s \<in> set (photo_shares d). ps_id s = sid \<longrightarrow> expired_at now (ps_expires_at s)"
      and "\<forall>s \<in> set (album_shares d). als_id s = sid \<longrightarrow> expired_at now (als_expires_at s)"
  proof -
    from model_reactivate_expired_unobservable [OF that]
    have same: "without_expired now ?d' = without_expired now d" .
    have "getSharesByUser ?d' now u type ?opts
            = getSharesByUser (without_expired now ?d') now u type ?opts"
      by (simp only: getSharesByUser_without_expired)
    also have "\<dots> = getSharesByUser d now u type ?opts"
      by (simp only: same getSharesByUser_without_expired)
    finally have q: "getSharesByUser ?d' now u type ?opts = getSharesByUser d now u type ?opts" .
    have "checkAlbumPermission ?d' now v a = checkAlbumPermission (without_expired now ?d') now v a"
      by (simp only: checkAlbumPermission_without_expired)
    also have "\<dots> = checkAlbumPermission d now v a"
      by (simp only: same checkAlbumPermission_without_expired)
    finally show ?thesis using q by simp
  qed
  show ?thesis
    using expired_not_effective [of now e True]
      getSharesByUser_without_expired [of now d u type opts]
      checkAlbumPermission_without_expired [of now d v a]
      model_reactivate_keeps_expiry [of d sid] service after
    by simp
qed

theorem C5_expired_share_never_effective_witness:
  "expired_at 100 (Some 50)
   \<and> \<not> share_effective_condition 100 True (Some 50)
   \<and> photo_shares example_private_store = [example_grant, example_expired_grant]
   \<and> album_shares example_private_store = []
   \<and> ps_id example_grant = 1 \<and> ps_id example_expired_grant = 2
   \<and> expired_at 100 (ps_expires_at example_expired_grant)
   \<and> checkAlbumPermission
        (snd (SharingModel_updateShare example_private_store 2 reactivation)) 100 4 3
       = checkAlbumPermission example_private_store 100 4 3
   \<and> reason (checkAlbumPermission example_private_store 100 4 3) = ''Private album''
   \<and> reason (checkAlbumPermission example_private_store 40 4 3) = ''Shared access''"
proof -
  have e: "expired_at 100 (Some 50)"
    by (simp add: expired_at_def)
  have p: "\<forall>s \<in> set (photo_shares example_private_store).
             ps_id s = 2 \<longrightarrow> expired_at 100 (ps_expires_at s)"
    by (simp add: example_private_store_def example_store_def example_grant_def
          example_expired_grant_def expired_at_def)
  have al: "\<forall>s \<in> set (album_shares example_private_store).
             als_id s = 2 \<longrightarrow> expired_at 100 (als_expires_at s)"
    by (simp add: example_private_store_def example_store_def)
  have late: "reason (checkAlbumPermission example_private_store 100 4 3) = ''Private album''"
    by (simp add: checkAlbumPermission_def example_private_store_def example_store_def
          example_users_def example_album_def example_grant_def example_expired_grant_def
          share_effective_condition_def)
  have early: "reason (checkAlbumPermission example_private_store 40 4 3) = ''Shared access''"
    by (simp add: checkAlbumPermission_def example_private_store_def example_store_def
          example_users_def example_album_def example_grant_def example_expired_grant_def
          share_effective_condition_def)
  from C5_expired_share_never_effective
         [where now = 100 and e = "Some 50" and d = example_private_store and sid = 2
            and v = 4 and a = 3 and u = 1 and type = "''given''" and uid = 1
            and opts = "\<lparr>page = 1, limit = 20, status_filter = ''active'', shareType = None\<rparr>"]
    e p al
  have "\<not> share_effective_condition 100 True (Some 50)"
    and "checkAlbumPermission
           (snd (SharingModel_updateShare example_private_store 2 reactivation)) 100 4 3
         = checkAlbumPermission example_private_store 100 4 3"
    by blast+
  moreover have "photo_shares example_private_store = [example_grant, example_expired_grant]"
    and "album_shares example_private_store = []"
    and "ps_id example_grant = 1" and "ps_id example_expired_grant = 2"
    and "expired_at 100 (ps_expires_at example_expired_grant)"
    by (simp_all add: example_private_store_def example_store_def example_grant_def
          example_expired_grant_def expired_at_def)
  ultimately show ?thesis using e late early by blast
qed

section \<open>Declined friendship edges are final\<close>

lemma key_unique:
  "distinct (map f_id xs) \<Longrightarrow> x \<in> set xs \<Longrightarrow> y \<in> set xs \<Longrightarrow> f_id x = f_id y \<Longrightarrow> x = y"
  by (meson distinct_map inj_onD)

lemma declined_blocks_send:
  assumes "declined_pair d a b"
  shows "checkFriendshipExists d a b \<noteq> None" "checkFriendshipExists d b a \<noteq> None"
proof -
  from assms obtain f where f: "f \<in> set (friendships d)" "edge_between a b f"
    by (auto simp: declined_pair_def)
  then have "filter (\<lambda>f. (requester_id f = a \<and> addressee_id f = b)
                            \<or> (requester_id f = b \<and> addressee_id f = a)) (friendships d) \<noteq> []"
    by (auto simp: filter_empty_conv edge_between_def)
  then show "checkFriendshipExists d a b \<noteq> None"
    by (simp add: checkFriendshipExists_def first_row_None_iff)
  from f have "filter (\<lambda>f. (requester_id f = b \<and> addressee_id f = a)
                            \<or> (requester_id f = a \<and> addressee_id f = b)) (friendships d) \<noteq> []"
    by (auto simp: filter_empty_conv edge_between_def)
  then show "checkFriendshipExists d b a \<noteq> None"
    by (simp add: checkFriendshipExists_def first_row_None_iff)
qed

lemma declined_send_fails:
  assumes "declined_pair d a b"
  shows "\<exists>msg. sendFriendRequest d a b = (Inl msg, d)"
    and "\<exists>msg. sendFriendRequest d b a = (Inl msg, d)"
  using declined_blocks_send [OF assms]
  by (auto simp: sendFriendRequest_def split: option.splits)

lemma send_preserves:
  assumes "friendship_keys d" "declined_pair d a b"
  shows "friendship_keys (snd (sendFriendRequest d r t))
         \<and> declined_pair (snd (sendFriendRequest d r t)) a b"
proof (cases "r \<noteq> t \<and> UserModel_findById d t \<noteq> None \<and> checkFriendshipExists d r t = None")
  case False
  then have "snd (sendFriendRequest d r t) = d"
    by (auto simp: sendFriendRequest_def split: option.splits)
  with assms show ?thesis by simp
next
  case True
  let ?row = "\<lparr>f_id = friendships_seq d, requester_id = r, addressee_id = t, status = ''pending''\<rparr>"
  let ?d = "d\<lparr>friendships := friendships d @ [?row], friendships_seq := friendships_seq d + 1\<rparr>"
  from True have after: "snd (sendFriendRequest d r t) = ?d"
    by (auto simp: sendFriendRequest_def FriendModel_sendFriendRequest_def Let_def
          split: option.splits)
  from True have "filter (\<lambda>f. (requester_id f = r \<and> addressee_id f = t)
                            \<or> (requester_id f = t \<and> addressee_id f = r)) (friendships d) = []"
    by (simp add: checkFriendshipExists_def first_row_None_iff)
  then have none: "\<forall>f \<in> set (friendships d). \<not> edge_between r t f"
    by (auto simp: filter_empty_conv edge_between_def)
  have "\<not> edge_between a b ?row"
  proof
    assume "edge_between a b ?row"
    then have "(r = a \<and> t = b) \<or> (r = b \<and> t = a)" by (simp add: edge_between_def)
    moreover from assms(2) obtain f where "f \<in> set (friendships d)" "edge_between a b f"
      by (auto simp: declined_pair_def)
    ultimately show False using none by (auto simp: edge_between_def)
  qed
  with assms(2) have dp: "declined_pair ?d a b"
    by (auto simp: declined_pair_def)
  from assms(1) have "friendship_keys ?d"
    by (fastforce simp: friendship_keys_def)
  with dp after show ?thesis by simp
qed

lemma status_update_preserves:
  assumes "friendship_keys d" "declined_pair d a b"
    and "f \<in> set (friendships d)" "status f \<noteq> ''declined''"
  shows "friendship_keys (snd (updateFriendshipStatus d (f_id f) s))
         \<and> declined_pair (snd (updateFriendshipStatus d (f_id f) s)) a b"
proof -
  let ?upd = "\<lambda>g. if f_id g = f_id f then g\<lparr>status := s\<rparr> else g"
  have after: "snd (updateFriendshipStatus d (f_id f) s)
                 = d\<lparr>friendships := map ?upd (friendships d)\<rparr>"
    by (simp add: updateFriendshipStatus_def)
  from assms(1) have dist: "distinct (map f_id (friendships d))"
    by (simp add: friendship_keys_def)
  have only: "g = f" if "g \<in> set (friendships d)" "f_id g = f_id f" for g
    using key_unique [OF dist that(1) assms(3) that(2)] .
  from assms(2,3,4) have notab: "\<not> edge_between a b f"
    by (auto simp: declined_pair_def)
  have ids: "map f_id (map ?upd (friendships d)) = map f_id (friendships d)"
    by (induction "friendships d") auto
  have keep: "?upd g = g" if "g \<in> set (friendships d)" "edge_between a b g" for g
    using only [OF that(1)] notab that(2) by auto
  have edge: "edge_between a b (?upd g) = edge_between a b g" for g
    by (simp add: edge_between_def)
  have dp: "declined_pair (d\<lparr>friendships := map ?upd (friendships d)\<rparr>) a b"
  proof -
    from assms(2) obtain g0 where g0: "g0 \<in> set (friendships d)" "edge_between a b g0"
      by (auto simp: declined_pair_def)
    with keep have "?upd g0 = g0" by blast
    with g0 have ex: "\<exists>g \<in> set (map ?upd (friendships d)). edge_between a b g"
      by force
    have all: "status g' = ''declined''"
      if "g' \<in> set (map ?upd (friendships d))" "edge_between a b g'" for g'
    proof -
      from that(1) obtain g where g: "g \<in> set (friendships d)" "g' = ?upd g" by auto
      with that(2) edge have "edge_between a b g" by blast
      with keep g have "g' = g" by simp
      with assms(2) g(1) \<open>edge_between a b g\<close> show ?thesis
        by (auto simp: declined_pair_def)
    qed
    have fs: "friendships (d\<lparr>friendships := map ?upd (friendships d)\<rparr>)
                = map ?upd (friendships d)" by simp
    show ?thesis unfolding declined_pair_def fs using ex all by blast
  qed
  from assms(1) ids have "friendship_keys (d\<lparr>friendships := map ?upd (friendships d)\<rparr>)"
    by (auto simp: friendship_keys_def simp del: map_map)
  with dp after show ?thesis by simp
qed

lemma respond_preserves:
  assumes "friendship_keys d" "declined_pair d a b"
  shows "friendship_keys (snd (respondToFriendRequest d u rid action))
         \<and> declined_pair (snd (respondToFriendRequest d u rid action)) a b"
proof (cases "action \<in> set [''accept'', ''decline'']")
  case False
  then have "snd (respondToFriendRequest d u rid action) = d"
    by (simp add: respondToFriendRequest_def)
  with assms show ?thesis by simp
next
  case act: True
  show ?thesis
  proof (cases "getFriendRequestById d rid u")
    case None
    with act have "snd (respondToFriendRequest d u rid action) = d"
      by (simp add: respondToFriendRequest_def)
    with assms show ?thesis by simp
  next
    case (Some found)
    obtain f requester where found: "found = (f, requester)" by (cases found)
    from Some found have mem: "f \<in> set (friendships d)" and fid: "f_id f = rid"
      by (auto simp: getFriendRequestById_def dest!: first_row_mem split: if_splits)
    show ?thesis
    proof (cases "status f = ''pending''")
      case False
      with act Some found have "snd (respondToFriendRequest d u rid action) = d"
        by (simp add: respondToFriendRequest_def)
      with assms show ?thesis by simp
    next
      case True
      then have nd: "status f \<noteq> ''declined''" by simp
      from act Some found True
      have "snd (respondToFriendRequest d u rid action)
              = snd (updateFriendshipStatus d (f_id f)
                       (if action = ''accept'' then ''accepted'' else ''declined''))"
        by (simp add: respondToFriendRequest_def Let_def fid split: prod.splits option.splits)
      with status_update_preserves [OF assms mem nd] show ?thesis by simp
    qed
  qed
qed

lemma respond_by_user_preserves:
  assumes "friendship_keys d" "declined_pair d a b"
  shows "friendship_keys (snd (respondToFriendRequestByUserId d u fr action))
         \<and> declined_pair (snd (respondToFriendRequestByUserId d u fr action)) a b"
proof (cases "action \<in> set [''accept'', ''decline'']")
  case False
  then have "snd (respondToFriendRequestByUserId d u fr action) = d"
    by (simp add: respondToFriendRequestByUserId_def)
  with assms show ?thesis by simp
next
  case act: True
  show ?thesis
  proof (cases "findPendingRequestBetweenUsers d fr u")
    case None
    with act have "snd (respondToFriendRequestByUserId d u fr action) = d"
      by (simp add: respondToFriendRequestByUserId_def)
    with assms show ?thesis by simp
  next
    case (Some found)
    obtain f requester where found: "found = (f, requester)" by (cases found)
    from Some found have mem: "f \<in> set (friendships d)" and pend: "status f = ''pending''"
      by (auto simp: findPendingRequestBetweenUsers_def dest!: first_row_mem split: if_splits)
    from pend have nd: "status f \<noteq> ''declined''" by simp
    from act Some found
    have "snd (respondToFriendRequestByUserId d u fr action)
            = snd (updateFriendshipStatus d (f_id f)
                     (if action = ''accept'' then ''accepted'' else ''declined''))"
      by (simp add: respondToFriendRequestByUserId_def Let_def split: prod.splits option.splits)
    with status_update_preserves [OF assms mem nd] show ?thesis by simp
  qed
qed

lemma remove_preserves:
  assumes "friendship_keys d" "declined_pair d a b"
  shows "friendship_keys (snd (removeFriend d u fr))
         \<and> declined_pair (snd (removeFriend d u fr)) a b"
proof (cases "\<exists>p found. fr = Some p \<and> getFriendshipByUsers d u p = Some found")
  case False
  then have "snd (removeFriend d u fr) = d"
    by (auto simp: removeFriend_def split: option.splits)
  with assms show ?thesis by simp
next
  case True
  then obtain p f friend where fr: "fr = Some p"
    and got: "getFriendshipByUsers d u p = Some (f, friend)" by auto
  from got have mem: "f \<in> set (friendships d)" and acc: "status f = ''accepted''"
    by (auto simp: getFriendshipByUsers_def dest!: first_row_mem split: if_splits)
  from fr got have after: "snd (removeFriend d u fr)
      = d\<lparr>friendships := filter (\<lambda>g. f_id g \<noteq> f_id f) (friendships d)\<rparr>"
    by (simp add: removeFriend_def deleteFriendship_def)
  from assms(1) have dist: "distinct (map f_id (friendships d))"
    by (simp add: friendship_keys_def)
  have only: "g = f" if "g \<in> set (friendships d)" "f_id g = f_id f" for g
    using key_unique [OF dist that(1) mem that(2)] .
  from assms(2) mem acc have notab: "\<not> edge_between a b f"
    by (auto simp: declined_pair_def)
  from assms(2) only notab
  have dp: "declined_pair (d\<lparr>friendships := filter (\<lambda>g. f_id g \<noteq> f_id f) (friendships d)\<rparr>) a b"
    by (auto simp: declined_pair_def)
  from assms(1)
  have "friendship_keys (d\<lparr>friendships := filter (\<lambda>g. f_id g \<noteq> f_id f) (friendships d)\<rparr>)"
    by (auto simp: friendship_keys_def distinct_map_filter)
  with dp after show ?thesis by simp
qed

lemma step_preserves:
  assumes "friendship_keys d" "declined_pair d a b"
  shows "friendship_keys (friend_step d c) \<and> declined_pair (friend_step d c) a b"
  using send_preserves [OF assms] respond_preserves [OF assms]
    respond_by_user_preserves [OF assms] remove_preserves [OF assms]
  by (cases c) simp_all

lemma run_preserves:
  "friendship_keys d \<Longrightarrow> declined_pair d a b \<Longrightarrow>
   friendship_keys (friend_run d calls) \<and> declined_pair (friend_run d calls) a b"
  unfolding friend_run_def
proof (induction calls arbitrary: d)
  case Nil
  then show ?case by simp
next
  case (Cons c calls)
  from step_preserves [OF Cons.prems]
  have "friendship_keys (friend_step d c)" "declined_pair (friend_step d c) a b" by simp_all
  from Cons.IH [OF this] show ?case by simp
qed

lemma declined_not_friends:
  assumes "declined_pair d a b"
  shows "\<not> areFriends d a b" "\<not> FriendModel_areFriends d a b"
proof -
  from assms have all: "\<forall>f \<in> set (friendships d). edge_between a b f \<longrightarrow> status f = ''declined''"
    by (simp add: declined_pair_def)
  then show "\<not> areFriends d a b"
    by (auto simp: areFriends_def filter_empty_conv edge_between_def)
  show "\<not> FriendModel_areFriends d a b"
  proof (cases "checkFriendshipExists d a b")
    case None
    then show ?thesis by (simp add: FriendModel_areFriends_def)
  next
    case (Some f)
    then have "f \<in> set (friendships d) \<and> edge_between a b f"
      by (auto simp: checkFriendshipExists_def edge_between_def dest!: first_row_mem)
    with all have "status f = ''declined''" by blast
    with Some show ?thesis by (simp add: FriendModel_areFriends_def)
  qed
qed

text \<open>
  C10. Let the store satisfy the primary key of \<open>friendships\<close>, and let two users have
  an edge between them, every edge between them being declined. Then after any sequence
  of calls of \<open>sendFriendRequest\<close>, \<open>respondToFriendRequest\<close>,
  \<open>respondToFriendRequestByUserId\<close> and \<open>removeFriend\<close>, by any users and with any
  arguments, the same holds: the declined edge is still there, the two are not friends
  (for \<open>PermissionUtils.areFriends\<close> and for \<open>FriendModel.areFriends\<close>), and a friend
  request between them, in either direction, throws and changes nothing.
\<close>

theorem C10_declined_is_absorbing:
  assumes "friendship_keys d" and "declined_pair d a b"
  shows "declined_pair (friend_run d calls) a b
         \<and> \<not> areFriends (friend_run d calls) a b
         \<and> \<not> FriendModel_areFriends (friend_run d calls) a b
         \<and> (\<exists>msg. sendFriendRequest (friend_run d calls) a b = (Inl msg, friend_run d calls))
         \<and> (\<exists>msg. sendFriendRequest (friend_run d calls) b a = (Inl msg, friend_run d calls))"
proof -
  from run_preserves [OF assms] have dp: "declined_pair (friend_run d calls) a b" by simp
  from dp declined_not_friends [OF dp] declined_send_fails [OF dp] show ?thesis by simp
qed

theorem C10_declined_is_absorbing_witness:
  "friendship_keys example_store \<and> declined_pair example_store 1 2
   \<and> \<not> areFriends
         (friend_run example_store
            [SendFriendRequest 2 1, RespondToFriendRequest 2 2 ''accept'',
             RespondToFriendRequestByUserId 2 1 ''accept'', RemoveFriend 1 (Some 2),
             SendFriendRequest 1 2, RemoveFriend 1 (Some 3), SendFriendRequest 4 1,
             RespondToFriendRequest 1 3 ''accept''])
         1 2"
proof -
  have keys: "friendship_keys example_store"
    by (simp add: friendship_keys_def example_store_def)
  have declined: "declined_pair example_store 1 2"
    by (simp add: declined_pair_def edge_between_def example_store_def)
  from C10_declined_is_absorbing [OF keys declined] keys declined show ?thesis by blast
qed

end
